theory Spec2Isabelle
  imports Main "HOL-Library.Word"
begin

unbundle bit_operations_syntax

section \<open>Strings\<close>

text \<open>
  A JavaScript string is modelled as a \<^typ>\<open>string\<close>: one \<^typ>\<open>char\<close> per code unit,
  for the code units 0 to 255 (ASCII and Latin-1). \<open>s.split(sep)\<close> with a one-character
  separator and \<open>xs.join(sep)\<close> are the two functions below; splitting the empty string
  gives one empty piece, as in JavaScript.
\<close>

fun split_char :: "char \<Rightarrow> string \<Rightarrow> string list" where
  "split_char sep [] = [[]]"
| "split_char sep (c # cs) =
     (if c = sep then [] # split_char sep cs
      else (case split_char sep cs of [] \<Rightarrow> [[c]] | piece # pieces \<Rightarrow> (c # piece) # pieces))"

fun join :: "string \<Rightarrow> string list \<Rightarrow> string" where
  "join sep [] = []"
| "join sep [x] = x"
| "join sep (x # y # ys) = x @ sep @ join sep (y # ys)"

text \<open>
  Character classes of JavaScript on these code units: \<open>\s\<close> (and what \<open>trim\<close> strips) is
  tab, line feed, vertical tab, form feed, carriage return, space and the no-break space
  U+00A0; a word character (for \<open>\b\<close>) is one of \<open>[A-Za-z0-9_]\<close>.
\<close>

definition is_space :: "char \<Rightarrow> bool" where
  "is_space c \<longleftrightarrow>
     c \<in> set [CHR 0x09, CHR 0x0A, CHR 0x0B, CHR 0x0C, CHR 0x0D, CHR 0x20, CHR 0xA0]"

text \<open>\<open>charCodeAt\<close>: the code unit as a number.\<close>

definition charCode :: "char \<Rightarrow> int" where
  "charCode c = of_char c"

definition is_lower_az :: "char \<Rightarrow> bool" where
  "is_lower_az c \<longleftrightarrow> 97 \<le> charCode c \<and> charCode c \<le> 122"

definition is_upper_az :: "char \<Rightarrow> bool" where
  "is_upper_az c \<longleftrightarrow> 65 \<le> charCode c \<and> charCode c \<le> 90"

definition is_digit :: "char \<Rightarrow> bool" where
  "is_digit c \<longleftrightarrow> 48 \<le> charCode c \<and> charCode c \<le> 57"

definition is_word_char :: "char \<Rightarrow> bool" where
  "is_word_char c \<longleftrightarrow> is_lower_az c \<or> is_upper_az c \<or> is_digit c \<or> c = CHR ''_''"

text \<open>
  \<open>toLowerCase\<close> on one code unit: \<open>A\<close> to \<open>Z\<close> and the Latin-1 capitals U+00C0 to U+00DE
  (but the multiplication sign U+00D7) move up by 32; every other code unit below 256 is
  unchanged. \<open>toUpperCase\<close> is modelled on ASCII only: the program applies it to the first
  character of a key phrase (\<open>[a-z0-9]\<close>) or of one of the literals \<open>Item\<close>, \<open>Status\<close> and
  \<open>Owner\<close>.
\<close>

definition lower_char :: "char \<Rightarrow> char" where
  "lower_char c =
     (let n = charCode c
      in if (65 \<le> n \<and> n \<le> 90) \<or> (192 \<le> n \<and> n \<le> 222 \<and> n \<noteq> 215)
         then char_of (n + 32) else c)"

definition upper_char :: "char \<Rightarrow> char" where
  "upper_char c = (if is_lower_az c then char_of (charCode c - 32) else c)"

definition toLowerCase :: "string \<Rightarrow> string" where
  "toLowerCase s = map lower_char s"

text \<open>\<open>s.trim()\<close>.\<close>

definition trim :: "string \<Rightarrow> string" where
  "trim s = rev (dropWhile is_space (rev (dropWhile is_space s)))"

text \<open>\<open>s.split(/\s+/)\<close>: the pieces between maximal runs of white space; a run at either
  end leaves an empty piece there.\<close>

function split_ws :: "string \<Rightarrow> string list" where
  "split_ws [] = [[]]"
| "split_ws (c # cs) =
     (if is_space c then [] # split_ws (dropWhile is_space cs)
      else (case split_ws cs of [] \<Rightarrow> [[c]] | piece # pieces \<Rightarrow> (c # piece) # pieces))"
  by pat_completeness auto
termination
  by (relation "measure length") (auto simp: length_dropWhile_le less_Suc_eq_le)

text \<open>\<open>Array.from(new Set(xs))\<close>: the first occurrence of each element, in order.\<close>

fun uniq_from :: "'a list \<Rightarrow> 'a list \<Rightarrow> 'a list" where
  "uniq_from seen [] = []"
| "uniq_from seen (x # xs) =
     (if x \<in> set seen then uniq_from seen xs else x # uniq_from (seen @ [x]) xs)"

definition uniq :: "'a list \<Rightarrow> 'a list" where
  "uniq xs = uniq_from [] xs"

text \<open>A natural number in decimal, as a template literal prints it.\<close>

definition digit_char :: "nat \<Rightarrow> char" where
  "digit_char d = char_of (48 + int d)"

fun decimal :: "nat \<Rightarrow> string" where
  "decimal n = (if n < 10 then [digit_char n] else decimal (n div 10) @ [digit_char (n mod 10)])"

declare decimal.simps [simp del]

text \<open>\<open>xs[i] ?? d\<close>: the element at an index, or a default past the end.\<close>

definition nth_or :: "'a list \<Rightarrow> nat \<Rightarrow> 'a \<Rightarrow> 'a" where
  "nth_or xs i d = (if i < length xs then xs ! i else d)"

section \<open>Diff engine (app/page.tsx)\<close>

datatype DiffKind = same | added | removed

datatype DiffLine = DiffLine (kind: DiffKind) (line_text: string)

text \<open>The table \<open>dp\<close> of \<open>buildLineDiff\<close>: \<open>m + 1\<close> rows of \<open>n + 1\<close> zeros, filled from the
  bottom right. \<open>fill_row a b i k dp\<close> is the inner loop with \<open>k\<close> values of \<open>j\<close> left
  (\<open>j = k - 1\<close> down to \<open>0\<close>); \<open>fill_table a b k dp\<close> is the outer loop with \<open>k\<close> values of
  \<open>i\<close> left.\<close>

definition dp_init :: "nat \<Rightarrow> nat \<Rightarrow> nat list list" where
  "dp_init m n = replicate (m + 1) (replicate (n + 1) 0)"

fun fill_row :: "string list \<Rightarrow> string list \<Rightarrow> nat \<Rightarrow> nat \<Rightarrow> nat list list \<Rightarrow> nat list list" where
  "fill_row a b i 0 dp = dp"
| "fill_row a b i (Suc j) dp =
     fill_row a b i j
       (dp[i := (dp ! i)[j :=
          (if a ! i = b ! j then dp ! (i + 1) ! (j + 1) + 1
           else max (dp ! (i + 1) ! j) (dp ! i ! (j + 1)))]])"

fun fill_table :: "string list \<Rightarrow> string list \<Rightarrow> nat \<Rightarrow> nat list list \<Rightarrow> nat list list" where
  "fill_table a b 0 dp = dp"
| "fill_table a b (Suc i) dp = fill_table a b i (fill_row a b i (length b) dp)"

text \<open>The three \<open>while\<close> loops of the backtracking phase, on the state \<open>(i, j, out)\<close>.\<close>

function walk :: "string list \<Rightarrow> string list \<Rightarrow> nat list list \<Rightarrow> nat \<Rightarrow> nat \<Rightarrow> DiffLine list
    \<Rightarrow> nat \<times> nat \<times> DiffLine list" where
  "walk a b dp i j out =
     (if i < length a \<and> j < length b then
        (if a ! i = b ! j then walk a b dp (i + 1) (j + 1) (out @ [DiffLine same (a ! i)])
         else if dp ! (i + 1) ! j \<ge> dp ! i ! (j + 1)
           then walk a b dp (i + 1) j (out @ [DiffLine removed (a ! i)])
         else walk a b dp i (j + 1) (out @ [DiffLine added (b ! j)]))
      else (i, j, out))"
  by pat_completeness auto
termination
  by (relation "measure (\<lambda>(a, b, dp, i, j, out). (length a - i) + (length b - j))") auto

declare walk.simps [simp del]

function drain_removed :: "string list \<Rightarrow> nat \<Rightarrow> DiffLine list \<Rightarrow> DiffLine list" where
  "drain_removed a i out =
     (if i < length a then drain_removed a (i + 1) (out @ [DiffLine removed (a ! i)]) else out)"
  by pat_completeness auto
termination
  by (relation "measure (\<lambda>(a, i, out). length a - i)") auto

declare drain_removed.simps [simp del]

function drain_added :: "string list \<Rightarrow> nat \<Rightarrow> DiffLine list \<Rightarrow> DiffLine list" where
  "drain_added b j out =
     (if j < length b then drain_added b (j + 1) (out @ [DiffLine added (b ! j)]) else out)"
  by pat_completeness auto
termination
  by (relation "measure (\<lambda>(b, j, out). length b - j)") auto

declare drain_added.simps [simp del]

definition buildLineDiff :: "string \<Rightarrow> string \<Rightarrow> DiffLine list" where
  "buildLineDiff source target =
     (let a = split_char (CHR 0x0A) source;
          b = split_char (CHR 0x0A) target;
          m = length a;
          n = length b;
          dp = fill_table a b m (dp_init m n)
      in case walk a b dp 0 0 [] of
           (i, j, out) \<Rightarrow> drain_added b j (drain_removed a i out))"

text \<open>Replaying a diff: the lines of the entries that are not of kind \<open>k\<close>, joined by
  newlines.\<close>

definition replay_without :: "DiffKind \<Rightarrow> DiffLine list \<Rightarrow> string" where
  "replay_without k d = join [CHR 0x0A] (map line_text (filter (\<lambda>e. kind e \<noteq> k) d))"

text \<open>The lines of the entries of a diff that are not of kind \<open>k\<close>.\<close>

definition keeps :: "DiffKind \<Rightarrow> DiffLine list \<Rightarrow> string list" where
  "keeps k d = map line_text (filter (\<lambda>e. kind e \<noteq> k) d)"

section \<open>Regular expressions\<close>

text \<open>
  The patterns of the program are alternatives of sequences of a few kinds of item: a
  literal character, the word boundary \<open>\b\<close>, the runs of white space \<open>\s+\<close> and \<open>\s*\<close>,
  a character class \<open>[...]\<close>, a run \<open>[^...]+\<close> and the negative lookahead \<open>(?!...)\<close> of a
  literal. In \<open>/\bnavbar|header|navigation\b/\<close> the first \<open>\b\<close> belongs to the first
  alternative only and the last to the last only, and the model writes each alternative
  with the items it has.

  \<open>match_end ci items prev s\<close> matches the items at the start of \<open>s\<close>, where \<open>prev\<close> is the
  character before it and \<open>ci\<close> is the flag \<open>i\<close>; it gives the text after the match, the
  runs being greedy and giving back what the items after them need. \<open>test\<close> is
  \<open>RegExp.prototype.test\<close> for a pattern without the flag \<open>g\<close>: some alternative matches
  at some position.
\<close>

datatype item =
    Lit char
  | WordBoundary
  | Spaces
  | Spaces0
  | AnyOf "char list"
  | RunNoneOf "char list"
  | NotAhead string

type_synonym regex = "item list list"

definition lits :: "string \<Rightarrow> item list" where
  "lits s = map Lit s"

text \<open>Canonicalisation for the flag \<open>i\<close>: upper case on ASCII. A code unit above 127 never
  canonicalises to an ASCII character, and the patterns are ASCII, so it is left as it is.\<close>

definition canon :: "char \<Rightarrow> char" where
  "canon c = upper_char c"

definition at_boundary :: "char option \<Rightarrow> string \<Rightarrow> bool" where
  "at_boundary prev s \<longleftrightarrow>
     (case prev of None \<Rightarrow> False | Some p \<Rightarrow> is_word_char p)
     \<noteq> (case s of [] \<Rightarrow> False | x # xs \<Rightarrow> is_word_char x)"

definition starts_with :: "string \<Rightarrow> string \<Rightarrow> bool" where
  "starts_with p s \<longleftrightarrow> take (length p) s = p"

fun match_end :: "bool \<Rightarrow> item list \<Rightarrow> char option \<Rightarrow> string \<Rightarrow> string option" where
  "match_end ci [] prev s = Some s"
| "match_end ci (WordBoundary # r) prev s =
     (if at_boundary prev s then match_end ci r prev s else None)"
| "match_end ci (NotAhead p # r) prev s =
     (if starts_with p s then None else match_end ci r prev s)"
| "match_end ci (Spaces0 # r) prev [] = match_end ci r prev []"
| "match_end ci (Spaces0 # r) prev (x # xs) =
     (if is_space x then
        (case match_end ci (Spaces0 # r) (Some x) xs of
           Some e \<Rightarrow> Some e
         | None \<Rightarrow> match_end ci r prev (x # xs))
      else match_end ci r prev (x # xs))"
| "match_end ci (Lit c # r) prev [] = None"
| "match_end ci (Lit c # r) prev (x # xs) =
     (if (if ci then canon x = canon c else x = c) then match_end ci r (Some x) xs else None)"
| "match_end ci (AnyOf cs # r) prev [] = None"
| "match_end ci (AnyOf cs # r) prev (x # xs) =
     (if x \<in> set cs then match_end ci r (Some x) xs else None)"
| "match_end ci (Spaces # r) prev [] = None"
| "match_end ci (Spaces # r) prev (x # xs) =
     (if is_space x then
        (case match_end ci (Spaces # r) (Some x) xs of
           Some e \<Rightarrow> Some e
         | None \<Rightarrow> match_end ci r (Some x) xs)
      else None)"
| "match_end ci (RunNoneOf cs # r) prev [] = None"
| "match_end ci (RunNoneOf cs # r) prev (x # xs) =
     (if x \<notin> set cs then
        (case match_end ci (RunNoneOf cs # r) (Some x) xs of
           Some e \<Rightarrow> Some e
         | None \<Rightarrow> match_end ci r (Some x) xs)
      else None)"

definition match_here :: "bool \<Rightarrow> item list \<Rightarrow> char option \<Rightarrow> string \<Rightarrow> bool" where
  "match_here ci items prev s \<longleftrightarrow> match_end ci items prev s \<noteq> None"

fun search :: "bool \<Rightarrow> regex \<Rightarrow> char option \<Rightarrow> string \<Rightarrow> bool" where
  "search ci re prev [] = list_ex (\<lambda>alt. match_here ci alt prev []) re"
| "search ci re prev (x # xs) =
     (list_ex (\<lambda>alt. match_here ci alt prev (x # xs)) re \<or> search ci re (Some x) xs)"

definition test :: "regex \<Rightarrow> string \<Rightarrow> bool" where
  "test re s = search False re None s"

definition test_i :: "regex \<Rightarrow> string \<Rightarrow> bool" where
  "test_i re s = search True re None s"

text \<open>The leftmost match of one sequence of items: the text after it.\<close>

fun search_end :: "item list \<Rightarrow> char option \<Rightarrow> string \<Rightarrow> string option" where
  "search_end items prev [] = match_end False items prev []"
| "search_end items prev (x # xs) =
     (case match_end False items prev (x # xs) of
        Some e \<Rightarrow> Some e
      | None \<Rightarrow> search_end items (Some x) xs)"

text \<open>The text before the first occurrence of a marker, when there is one.\<close>

fun before_first :: "string \<Rightarrow> string \<Rightarrow> string option" where
  "before_first marker [] = (if marker = [] then Some [] else None)"
| "before_first marker (x # xs) =
     (if starts_with marker (x # xs) then Some []
      else map_option (Cons x) (before_first marker xs))"

section \<open>Data model (types/agent.ts)\<close>

text \<open>
  A value of type \<open>unknown\<close> is a JSON value; an object is the list of its entries in
  insertion order. Numbers are modelled as integers: the planner computes integers only,
  and the non-finite and fractional doubles are outside the model.
\<close>

datatype json =
    JNull
  | JBool bool
  | JNum int
  | JStr string
  | JArr "json list"
  | JObj "(string \<times> json) list"

definition ALLOWED_COMPONENTS :: "string list" where
  "ALLOWED_COMPONENTS =
     [''Button'', ''Card'', ''Input'', ''Table'', ''Modal'', ''Sidebar'', ''Navbar'', ''Chart'']"

text \<open>
  \<open>UINode\<close> and \<open>UIPlan\<close>. The fields \<open>component\<close> and \<open>mode\<close> are the strings they are at
  run time: \<open>validatePlan\<close> and \<open>runGenerator\<close> check them against the enumerations when
  the program runs. An absent \<open>children\<close> or \<open>modificationInstructions\<close> is \<open>None\<close>.
\<close>

datatype UINode =
  UINode (node_id: string) (component: string) (props: "(string \<times> json) list")
    (children: "UINode list option")

record UIPlan =
  mode :: string
  root :: "UINode list"
  modificationInstructions :: "string option"

text \<open>\<open>node.children ?? []\<close>.\<close>

definition children_or_empty :: "UINode \<Rightarrow> UINode list" where
  "children_or_empty n = (case children n of None \<Rightarrow> [] | Some cs \<Rightarrow> cs)"

section \<open>Deterministic planner (agent/planner.ts)\<close>

datatype IntentComponent = Navbar | Sidebar | Card | Input | Button | Table | Modal | Chart

definition STOPWORDS :: "string list" where
  "STOPWORDS =
     [''create'', ''build'', ''make'', ''design'', ''generate'', ''ui'', ''page'', ''screen'',
      ''dashboard'', ''app'', ''website'', ''for'', ''with'', ''and'', ''the'', ''a'', ''an'',
      ''to'', ''of'', ''in'', ''on'', ''from'', ''that'', ''this'']"

text \<open>\<open>hashIntent\<close>: \<open>hash * 31 + charCode\<close> is exact in a double (below \<open>2^37\<close>), and
  \<open>>>> 0\<close> reduces it modulo \<open>2^32\<close>: arithmetic on 32-bit words.\<close>

definition hashIntent :: "string \<Rightarrow> 32 word" where
  "hashIntent input = foldl (\<lambda>hash c. hash * 31 + of_int (charCode c)) 0 input"

text \<open>\<open>pickByHash\<close>: \<open>hash + offset\<close> is not wrapped. Every call passes a literal list that
  is not empty, so the index is in range.\<close>

definition pickByHash :: "'a list \<Rightarrow> 32 word \<Rightarrow> nat \<Rightarrow> 'a" where
  "pickByHash items hash offset = items ! ((unat hash + offset) mod length items)"

definition keep_or_blank :: "char \<Rightarrow> char" where
  "keep_or_blank c = (if is_lower_az c \<or> is_digit c \<or> is_space c then c else CHR '' '')"

definition extractKeyPhrases :: "string \<Rightarrow> string list" where
  "extractKeyPhrases intent =
     (let words = filter (\<lambda>w. length w > 2 \<and> w \<notin> set STOPWORDS)
                    (split_ws (map keep_or_blank (toLowerCase intent)));
          uniq = uniq words
      in take 6 uniq)"

text \<open>\<open>createNodeFactory\<close>: the closure's counter is explicit state. \<open>node counter\<close> is the
  node the factory returns when its counter stands at \<open>counter\<close>; the caller goes on with
  \<open>counter + 1\<close>. Arguments are evaluated before the call, so the children of a node take
  their numbers before their parent.\<close>

definition node :: "nat \<Rightarrow> string \<Rightarrow> (string \<times> json) list \<Rightarrow> UINode list option \<Rightarrow> UINode" where
  "node counter tag ps cs =
     UINode (toLowerCase tag @ ''-'' @ decimal counter) tag ps cs"

definition capitalize :: "string \<Rightarrow> string" where
  "capitalize part = (case part of [] \<Rightarrow> [] | c # cs \<Rightarrow> upper_char c # toLowerCase cs)"

definition toTitleCase :: "string \<Rightarrow> string" where
  "toTitleCase v =
     join '' '' (map capitalize (filter (\<lambda>part. part \<noteq> []) (split_char (CHR '' '') v)))"

definition inferTopic :: "string \<Rightarrow> string" where
  "inferTopic intent =
     (let phrases = extractKeyPhrases intent
      in if phrases = [] then ''Workspace'' else toTitleCase (join '' '' (take 2 phrases)))"

definition inferMode :: "string \<Rightarrow> string" where
  "inferMode intent =
     (if test_i [lits ''minimal'', lits ''simple'', lits ''clean'', lits ''single column'',
                 lits ''stack''] intent then ''stack''
      else if test_i [lits ''grid'', lits ''cards layout'', lits ''two columns''] intent
        then ''grid''
      else ''split'')"

definition re_auth :: regex where
  "re_auth = [WordBoundary # lits ''login'', lits ''sign in'', lits ''signup'',
              lits ''register'', lits ''auth'' @ [WordBoundary]]"

definition re_feed :: regex where
  "re_feed = [WordBoundary # lits ''feed'', lits ''social'', lits ''linkedin'' @ [WordBoundary]]"

definition add_if :: "bool \<Rightarrow> 'a set \<Rightarrow> 'a set" where
  "add_if b A = (if b then A else {})"

definition inferRequestedComponents :: "string \<Rightarrow> IntentComponent set" where
  "inferRequestedComponents intent =
     (let text = toLowerCase intent;
          requested =
            add_if (test [WordBoundary # lits ''navbar'', lits ''header'', lits ''top nav'',
                        lits ''navigation'' @ [WordBoundary]] text) {Navbar}
          \<union> add_if (test [WordBoundary # lits ''sidebar'', lits ''side nav'',
                        lits ''left nav'' @ [WordBoundary]] text) {Sidebar}
          \<union> add_if (test [WordBoundary # lits ''card'', lits ''panel'', lits ''widget'',
                        lits ''section'' @ [WordBoundary]] text) {Card}
          \<union> add_if (test [WordBoundary # lits ''input'', lits ''field'', lits ''form'',
                        lits ''search'', lits ''textbox'', lits ''text box'', lits ''login'',
                        lits ''signup'', lits ''register'' @ [WordBoundary]] text) {Input}
          \<union> add_if (test [WordBoundary # lits ''button'', lits ''cta'', lits ''submit'',
                        lits ''action'' @ [WordBoundary]] text) {Button}
          \<union> add_if (test [WordBoundary # lits ''table'', lits ''list'', lits ''rows'',
                        lits ''columns'', lits ''grid data'' @ [WordBoundary]] text) {Table}
          \<union> add_if (test [WordBoundary # lits ''modal'', lits ''dialog'',
                        lits ''popup'' @ [WordBoundary]] text) {Modal}
          \<union> add_if (test [WordBoundary # lits ''chart'', lits ''graph'', lits ''analytics'',
                        lits ''stats'', lits ''trend'', lits ''metrics'' @ [WordBoundary]] text)
               {Chart}
          \<union> add_if (test [WordBoundary # lits ''dashboard'', lits ''admin'', lits ''portal'',
                        lits ''console'' @ [WordBoundary]] text) {Navbar, Sidebar, Card, Chart}
          \<union> add_if (test re_auth text) {Card, Input, Button}
          \<union> add_if (test [WordBoundary # lits ''feed'', lits ''social'', lits ''linkedin'',
                        lits ''twitter'', lits ''instagram'' @ [WordBoundary]] text)
               {Navbar, Sidebar, Card, Table}
      in if requested = {} then {Navbar, Card, Input, Button} else requested)"

text \<open>\<open>x % y\<close> on integers: the remainder has the sign of the dividend.\<close>

definition js_rem :: "int \<Rightarrow> int \<Rightarrow> int" where
  "js_rem x y = sgn x * (\<bar>x\<bar> mod \<bar>y\<bar>)"

text \<open>\<open>buildChartData\<close>: \<open>hash >> k\<close> reads the hash as a signed 32-bit integer and shifts
  it arithmetically, which is the floor of the division by \<open>2^k\<close>.\<close>

definition buildChartData :: "32 word \<Rightarrow> (string \<times> int) list" where
  "buildChartData hash =
     map (\<lambda>(label, idx). (label, 10 + js_rem (sint hash div 2 ^ (idx mod 16)) 26 + int idx * 2))
       (zip [''Mon'', ''Tue'', ''Wed'', ''Thu'', ''Fri'', ''Sat''] [0 ..< 6])"

definition chart_json :: "(string \<times> int) list \<Rightarrow> json" where
  "chart_json d = JArr (map (\<lambda>(label, v). JObj [(''label'', JStr label), (''value'', JNum v)]) d)"

definition strings_json :: "string list \<Rightarrow> json" where
  "strings_json xs = JArr (map JStr xs)"

definition rows_json :: "string list list \<Rightarrow> json" where
  "rows_json rows = JArr (map strings_json rows)"

definition buildTableRowsFromIntent :: "string list \<Rightarrow> 32 word \<Rightarrow> string list list" where
  "buildTableRowsFromIntent phrases hash =
     (let subjectA = toTitleCase (nth_or phrases 0 ''Item'');
          subjectB = toTitleCase (nth_or phrases 1 ''Status'');
          subjectC = toTitleCase (nth_or phrases 2 ''Owner'');
          states = [''Draft'', ''Active'', ''Review'', ''Blocked'', ''Done''];
          actions = [''View'', ''Edit'', ''Open'', ''Inspect'', ''Track'']
      in [[subjectA @ '' A'', pickByHash states hash 1, subjectC @ '' 1''],
          [subjectA @ '' B'', pickByHash states hash 2, subjectC @ '' 2''],
          [subjectA @ '' C'', pickByHash states hash 3, pickByHash actions hash 4],
          [subjectB @ '' D'', pickByHash states hash 0, pickByHash actions hash 2]])"

text \<open>
  \<open>buildIntentAwarePlan\<close>. The state of the function body is the array \<open>root\<close> (here \<open>nodes\<close>) and the
  counter of the node factory; each \<open>if\<close> block of the body is one function on that state,
  named after what it pushes, and they run in the order of the source.
\<close>

type_synonym build_state = "UINode list \<times> nat"

definition push_navbar :: "string \<Rightarrow> string \<Rightarrow> 32 word \<Rightarrow> IntentComponent set \<Rightarrow> build_state \<Rightarrow> build_state" where
  "push_navbar text topic hash requested st =
     (case st of (nodes, counter) \<Rightarrow>
        if Navbar \<in> requested then
          (let navLinks =
                 (if test re_feed text then [''Home'', ''Network'', ''Jobs'', ''Messages'', ''Alerts'']
                  else pickByHash
                         [[''Overview'', ''Discover'', ''Updates'', ''Settings''],
                          [''Home'', ''Insights'', ''Tasks'', ''Team''],
                          [''Feed'', ''Explore'', ''Alerts'', ''Profile''],
                          [''Summary'', ''Pipelines'', ''Reports'', ''Preferences'']] hash 0)
           in (nodes @ [node counter ''Navbar''
                         [(''title'', JStr (topic @ '' UI'')), (''links'', strings_json navLinks)]
                         None],
               counter + 1))
        else st)"

definition push_sidebar :: "string \<Rightarrow> string \<Rightarrow> 32 word \<Rightarrow> IntentComponent set \<Rightarrow> build_state \<Rightarrow> build_state" where
  "push_sidebar text topic hash requested st =
     (case st of (nodes, counter) \<Rightarrow>
        if Sidebar \<in> requested then
          (let sideItems =
                 (if test [WordBoundary # lits ''ecommerce'', lits ''store'',
                           lits ''shop'' @ [WordBoundary]] text
                    then [''Catalog'', ''Orders'', ''Customers'', ''Promotions'', ''Analytics'']
                  else if test re_feed text
                    then [''Feed'', ''Profile'', ''Connections'', ''Groups'', ''Events'']
                  else pickByHash
                         [[''Dashboard'', ''Projects'', ''Timeline'', ''Members'', ''Settings''],
                          [''Workspace'', ''Queue'', ''Approvals'', ''Analytics'', ''Admin''],
                          [''Library'', ''Collections'', ''Bookmarks'', ''Notifications'', ''Help''],
                          [''Catalog'', ''Operations'', ''Billing'', ''Users'', ''Security'']] hash 3)
           in (nodes @ [node counter ''Sidebar''
                         [(''title'', JStr (topic @ '' Menu'')), (''items'', strings_json sideItems)]
                         None],
               counter + 1))
        else st)"

text \<open>The card: the authentication card, or the controls card. In the controls card the
  first \<open>Input\<close> pushed is overwritten by a second one, which takes the next number.\<close>

definition push_card :: "string \<Rightarrow> string \<Rightarrow> 32 word \<Rightarrow> string list \<Rightarrow> IntentComponent set \<Rightarrow> build_state \<Rightarrow> build_state" where
  "push_card text topic hash phrases requested st =
     (case st of (nodes, counter) \<Rightarrow>
        if test re_auth text then
          (nodes @ [node (counter + 3) ''Card'' [(''title'', JStr (topic @ '' Authentication''))]
                     (Some
                        [node counter ''Input''
                           [(''label'', JStr ''Email''), (''placeholder'', JStr ''you@example.com'')]
                           None,
                         node (counter + 1) ''Input''
                           [(''label'', JStr ''Password''),
                            (''placeholder'', JStr ''Enter password'')] None,
                         node (counter + 2) ''Button''
                           [(''label'',
                             JStr (if test [lits ''signup'', lits ''register''] text
                                   then ''Create Account'' else ''Sign In'')),
                            (''variant'', JStr ''primary'')] None])],
           counter + 4)
        else if Card \<in> requested then
          (let actionPrimary =
                 pickByHash [''Apply'', ''Create'', ''Save'', ''Search'', ''Launch''] hash 1;
               actionSecondary =
                 pickByHash [''Reset'', ''Clear'', ''Cancel'', ''Back'', ''Filter''] hash 2;
               (cardChildren, counter) =
                 (if Input \<in> requested then
                    (let inputLabel =
                           (case phrases of [] \<Rightarrow> ''Search''
                            | p # ps \<Rightarrow> if p = [] then ''Search'' else ''Search '' @ toTitleCase p);
                         inputPlaceholder =
                           (if phrases \<noteq> [] then ''Find '' @ join '' '' (take 2 phrases)
                            else ''Find '' @ toLowerCase topic @ '' items'');
                         pushed =
                           [node counter ''Input''
                              [(''label'', JStr ''Search''),
                               (''placeholder'', JStr (''Find '' @ toLowerCase topic @ '' items''))]
                              None]
                     in (pushed[length pushed - 1 :=
                           node (counter + 1) ''Input''
                             [(''label'', JStr inputLabel),
                              (''placeholder'', JStr inputPlaceholder)] None],
                         counter + 2))
                  else ([], counter));
               (cardChildren, counter) =
                 (if Button \<in> requested then
                    (cardChildren
                       @ [node counter ''Button''
                            [(''label'', JStr actionPrimary), (''variant'', JStr ''primary'')] None,
                          node (counter + 1) ''Button''
                            [(''label'', JStr actionSecondary), (''variant'', JStr ''secondary'')]
                            None],
                     counter + 2)
                  else (cardChildren, counter))
           in (nodes @ [node counter ''Card'' [(''title'', JStr (topic @ '' Controls''))]
                         (if cardChildren \<noteq> [] then Some cardChildren else None)],
               counter + 1))
        else st)"

definition push_table :: "string \<Rightarrow> string \<Rightarrow> 32 word \<Rightarrow> string list \<Rightarrow> IntentComponent set \<Rightarrow> build_state \<Rightarrow> build_state" where
  "push_table text topic hash phrases requested st =
     (case st of (nodes, counter) \<Rightarrow>
        if Table \<in> requested then
          (let tableRows =
                 (if test re_feed text
                    then [[''Jane Doe'', ''Product Designer'', ''Connect''],
                          [''Arjun Rao'', ''Software Engineer'', ''Message''],
                          [''Nina Kim'', ''Marketing Lead'', ''Follow'']]
                  else buildTableRowsFromIntent phrases hash);
               tableColumns =
                 (if length phrases \<ge> 2
                    then [toTitleCase (phrases ! 0), toTitleCase (phrases ! 1), ''Action'']
                  else [''Name'', ''Status'', ''Action''])
           in (nodes @ [node (counter + 1) ''Card'' [(''title'', JStr (topic @ '' Table''))]
                         (Some [node counter ''Table''
                                  [(''columns'', strings_json tableColumns),
                                   (''rows'', rows_json tableRows)] None])],
               counter + 2))
        else st)"

definition push_chart :: "string \<Rightarrow> 32 word \<Rightarrow> IntentComponent set \<Rightarrow> build_state \<Rightarrow> build_state" where
  "push_chart topic hash requested st =
     (case st of (nodes, counter) \<Rightarrow>
        if Chart \<in> requested then
          (nodes @ [node counter ''Chart''
                     [(''title'', JStr (topic @ '' Metrics'')),
                      (''data'', chart_json (buildChartData hash))] None],
           counter + 1)
        else st)"

definition push_modal :: "string \<Rightarrow> string \<Rightarrow> IntentComponent set \<Rightarrow> build_state \<Rightarrow> build_state" where
  "push_modal text topic requested st =
     (case st of (nodes, counter) \<Rightarrow>
        if Modal \<in> requested
           \<or> test [WordBoundary # lits ''settings'', lits ''preferences'' @ [WordBoundary]] text
        then
          (nodes @ [node (counter + 2) ''Modal''
                     [(''title'', JStr (topic @ '' Settings'')), (''open'', JBool True)]
                     (Some
                        [node counter ''Input''
                           [(''label'', JStr ''Display Name''), (''placeholder'', JStr topic)] None,
                         node (counter + 1) ''Button''
                           [(''label'', JStr ''Save''), (''variant'', JStr ''primary'')] None])],
           counter + 3)
        else st)"

definition push_fallback :: "string \<Rightarrow> build_state \<Rightarrow> build_state" where
  "push_fallback topic st =
     (case st of (nodes, counter) \<Rightarrow>
        if nodes = [] then
          (nodes @ [node (counter + 1) ''Card'' [(''title'', JStr (topic @ '' Panel''))]
                     (Some [node counter ''Button''
                              [(''label'', JStr ''Continue''), (''variant'', JStr ''primary'')]
                              None])],
           counter + 2)
        else st)"

definition buildIntentAwarePlan :: "string \<Rightarrow> UIPlan" where
  "buildIntentAwarePlan intent =
     (let layout = inferMode intent;
          topic = inferTopic intent;
          hash = hashIntent (toLowerCase intent);
          phrases = extractKeyPhrases intent;
          requested = inferRequestedComponents intent;
          text = toLowerCase intent;
          st = ([], 1);
          st = push_navbar text topic hash requested st;
          st = push_sidebar text topic hash requested st;
          st = push_card text topic hash phrases requested st;
          st = push_table text topic hash phrases requested st;
          st = push_chart topic hash requested st;
          st = push_modal text topic requested st;
          st = push_fallback topic st
      in \<lparr>mode = layout, root = fst st, modificationInstructions = None\<rparr>)"

text \<open>
  Incremental modification. \<open>structuredClone\<close> copies a value, which is the identity on
  the values of the model. \<open>Date.now()\<close> is read three times for the identifiers of the
  settings modal: \<open>now k\<close> is the \<open>k\<close>-th reading of the clock during the call.
\<close>

definition addMinimalMode :: "UIPlan \<Rightarrow> UIPlan" where
  "addMinimalMode plan =
     plan\<lparr>mode := ''stack'',
          root := map (\<lambda>n. if component n = ''Navbar''
                            then UINode (node_id n) (component n)
                                   [(''title'', JStr ''Minimal UI''),
                                    (''links'', strings_json [''Home'', ''Settings''])]
                                   (children n)
                            else n) (root plan)\<rparr>"

definition settings_modal :: "(nat \<Rightarrow> nat) \<Rightarrow> UINode" where
  "settings_modal now =
     UINode (''modal-'' @ decimal (now 0)) ''Modal''
       [(''title'', JStr ''Settings''), (''open'', JBool True)]
       (Some
          [UINode (''input-'' @ decimal (now 1)) ''Input''
             [(''label'', JStr ''Theme''), (''placeholder'', JStr ''Light or Dark'')] None,
           UINode (''save-'' @ decimal (now 2)) ''Button''
             [(''label'', JStr ''Save''), (''variant'', JStr ''primary'')] None])"

text \<open>The three blocks of the \<open>add\<close> branch, on the array \<open>next.root\<close> and the counter of
  the branch's own node factory.\<close>

definition add_chart :: "string \<Rightarrow> string \<Rightarrow> IntentComponent set \<Rightarrow> build_state \<Rightarrow> build_state" where
  "add_chart intent topic requested st =
     (case st of (nodes, counter) \<Rightarrow>
        if Chart \<in> requested \<and> \<not> list_ex (\<lambda>n. component n = ''Chart'') nodes then
          (nodes @ [node counter ''Chart''
                      [(''title'', JStr (topic @ '' Metrics'')),
                       (''data'', chart_json (buildChartData (hashIntent intent)))] None],
           counter + 1)
        else st)"

definition add_table :: "string \<Rightarrow> string \<Rightarrow> IntentComponent set \<Rightarrow> build_state \<Rightarrow> build_state" where
  "add_table intent topic requested st =
     (case st of (nodes, counter) \<Rightarrow>
        if Table \<in> requested
           \<and> \<not> list_ex (\<lambda>n. component n = ''Table''
                              \<or> list_ex (\<lambda>c. component c = ''Table'') (children_or_empty n)) nodes
        then
          (nodes @ [node (counter + 1) ''Card'' [(''title'', JStr (topic @ '' Table''))]
                      (Some [node counter ''Table''
                               [(''columns'', strings_json [''Name'', ''Status'', ''Action'']),
                                (''rows'',
                                 rows_json (buildTableRowsFromIntent (extractKeyPhrases intent)
                                              (hashIntent intent)))] None])],
           counter + 2)
        else st)"

definition add_input :: "string \<Rightarrow> IntentComponent set \<Rightarrow> build_state \<Rightarrow> build_state" where
  "add_input topic requested st =
     (case st of (nodes, counter) \<Rightarrow>
        if Input \<in> requested
           \<and> \<not> list_ex (\<lambda>n. list_ex (\<lambda>c. component c = ''Input'') (children_or_empty n)) nodes
        then
          (nodes @ [node (counter + 2) ''Card'' [(''title'', JStr (topic @ '' Input''))]
                      (Some [node counter ''Input''
                               [(''label'', JStr ''Search''),
                                (''placeholder'', JStr (''Find '' @ toLowerCase topic @ '' items''))]
                               None,
                             node (counter + 1) ''Button''
                               [(''label'', JStr ''Apply''), (''variant'', JStr ''primary'')]
                               None])],
           counter + 3)
        else st)"

definition re_minimal :: regex where
  "re_minimal = [lits ''minimal'', lits ''simple'', lits ''clean'']"

definition re_settings_modal :: regex where
  "re_settings_modal =
     [WordBoundary # lits ''settings'' @ [Spaces] @ lits ''modal'', lits ''settings dialog'',
      lits ''settings popup'' @ [WordBoundary]]"

definition re_convert :: regex where
  "re_convert =
     [WordBoundary # lits ''convert to'', lits ''change to'', lits ''make it like'',
      lits ''turn into'' @ [WordBoundary]]"

definition re_add :: regex where
  "re_add =
     [WordBoundary # lits ''add'' @ [WordBoundary],
      WordBoundary # lits ''include'' @ [WordBoundary],
      WordBoundary # lits ''insert'' @ [WordBoundary]]"

definition mergeModification :: "(nat \<Rightarrow> nat) \<Rightarrow> string \<Rightarrow> UIPlan \<Rightarrow> UIPlan" where
  "mergeModification now intent priorPlan =
     (let next = priorPlan;
          normalized = toLowerCase intent;
          next = (if test re_minimal normalized then addMinimalMode next else next);
          next =
            (if test re_settings_modal normalized then
               (let hasModal = list_ex (\<lambda>n. component n = ''Modal'') (root next)
                in if \<not> hasModal then next\<lparr>root := root next @ [settings_modal now]\<rparr>
                   else next)
             else next)
      in if test re_convert normalized then
           (buildIntentAwarePlan intent)
             \<lparr>modificationInstructions := Some (''Converted UI based on request: '' @ intent)\<rparr>
         else
           (let next =
                  (if test re_add normalized then
                     (let requested = inferRequestedComponents intent;
                          topic = inferTopic intent;
                          st = (root next, 1);
                          st = add_chart intent topic requested st;
                          st = add_table intent topic requested st;
                          st = add_input topic requested st
                      in next\<lparr>root := fst st\<rparr>)
                   else next)
            in next\<lparr>modificationInstructions := Some intent\<rparr>))"

section \<open>Schema validation (lib/validation.ts)\<close>

text \<open>Reading a property of an object: \<open>None\<close> when the key is absent.\<close>

definition field :: "(string \<times> json) list \<Rightarrow> string \<Rightarrow> json option" where
  "field kvs k = map_of kvs k"

lemma size_field: "field kvs k = Some v \<Longrightarrow> size v < size (JObj kvs)"
proof (induction kvs)
  case Nil
  then show ?case by (simp add: field_def)
next
  case (Cons kv kvs)
  then show ?case by (cases kv) (auto simp: field_def split: if_splits)
qed

lemma size_element: "x \<in> set xs \<Longrightarrow> size x < size (JArr xs)"
  by (induction xs) auto

lemma size_child: "field kvs k = Some (JArr cs) \<Longrightarrow> x \<in> set cs \<Longrightarrow> size x < size (JObj kvs)"
  using size_field [of kvs k "JArr cs"] size_element [of x cs] by simp

text \<open>
  \<open>uiNodeSchema\<close>, as zod parses a value: an object with a non-empty string \<open>id\<close>, a
  \<open>component\<close> of the enumeration, an object \<open>props\<close> and, when present, an array
  \<open>children\<close> of nodes. The result has these four properties and no other (a plain
  \<open>z.object\<close> drops unknown keys); \<open>None\<close> is the failure of \<open>safeParse\<close>.
\<close>

function uiNodeSchema :: "json \<Rightarrow> UINode option" where
  "uiNodeSchema (JObj kvs) =
     (case (field kvs ''id'', field kvs ''component'', field kvs ''props'') of
        (Some (JStr i), Some (JStr c), Some (JObj ps)) \<Rightarrow>
          if i \<noteq> [] \<and> c \<in> set ALLOWED_COMPONENTS then
            (case field kvs ''children'' of
               None \<Rightarrow> Some (UINode i c ps None)
             | Some (JArr cs) \<Rightarrow>
                 (case those (map uiNodeSchema cs) of
                    None \<Rightarrow> None
                  | Some ns \<Rightarrow> Some (UINode i c ps (Some ns)))
             | Some _ \<Rightarrow> None)
          else None
      | _ \<Rightarrow> None)"
| "uiNodeSchema JNull = None"
| "uiNodeSchema (JBool b) = None"
| "uiNodeSchema (JNum n) = None"
| "uiNodeSchema (JStr s) = None"
| "uiNodeSchema (JArr xs) = None"
  by pat_completeness auto
termination
  by (relation "measure size") (auto dest: size_child)

definition uiPlanSchema :: "json \<Rightarrow> UIPlan option" where
  "uiPlanSchema payload =
     (case payload of
        JObj kvs \<Rightarrow>
          (case (field kvs ''mode'', field kvs ''root'') of
             (Some (JStr m), Some (JArr rs)) \<Rightarrow>
               if m \<in> set [''stack'', ''grid'', ''split''] \<and> rs \<noteq> [] then
                 (case those (map uiNodeSchema rs) of
                    None \<Rightarrow> None
                  | Some ns \<Rightarrow>
                      (case field kvs ''modificationInstructions'' of
                         None \<Rightarrow> Some \<lparr>mode = m, root = ns, modificationInstructions = None\<rparr>
                       | Some (JStr t) \<Rightarrow>
                           Some \<lparr>mode = m, root = ns, modificationInstructions = Some t\<rparr>
                       | Some _ \<Rightarrow> None))
               else None
           | _ \<Rightarrow> None)
      | _ \<Rightarrow> None)"

text \<open>
  The value a typed node or plan is at run time, with its properties in the order the
  program creates them: \<open>id\<close>, \<open>component\<close>, \<open>props\<close>, \<open>children\<close> and \<open>mode\<close>, \<open>root\<close>,
  \<open>modificationInstructions\<close>. This is what \<open>validatePlan(input.plan)\<close> and
  \<open>JSON.stringify(input.plan)\<close> receive.
\<close>

fun node_json :: "UINode \<Rightarrow> json" where
  "node_json (UINode i c ps ch) =
     JObj ([(''id'', JStr i), (''component'', JStr c), (''props'', JObj ps)]
           @ (case ch of None \<Rightarrow> [] | Some cs \<Rightarrow> [(''children'', JArr (map node_json cs))]))"

definition plan_json :: "UIPlan \<Rightarrow> json" where
  "plan_json plan =
     JObj ([(''mode'', JStr (mode plan)), (''root'', JArr (map node_json (root plan)))]
           @ (case modificationInstructions plan of
                None \<Rightarrow> []
              | Some t \<Rightarrow> [(''modificationInstructions'', JStr t)]))"

text \<open>
  The prop schemas: each is a strict object, so a key outside the schema fails it. A
  schema is modelled by the success of its \<open>safeParse\<close>.
\<close>

definition strict :: "string list \<Rightarrow> (string \<times> json) list \<Rightarrow> bool" where
  "strict keys ps = list_all (\<lambda>kv. fst kv \<in> set keys) ps"

definition z_string :: "json option \<Rightarrow> bool" where
  "z_string v = (case v of Some (JStr s) \<Rightarrow> True | _ \<Rightarrow> False)"

definition z_string_min1 :: "json option \<Rightarrow> bool" where
  "z_string_min1 v = (case v of Some (JStr s) \<Rightarrow> s \<noteq> [] | _ \<Rightarrow> False)"

definition z_string_optional :: "json option \<Rightarrow> bool" where
  "z_string_optional v = (case v of None \<Rightarrow> True | Some (JStr s) \<Rightarrow> True | _ \<Rightarrow> False)"

definition z_boolean :: "json option \<Rightarrow> bool" where
  "z_boolean v = (case v of Some (JBool b) \<Rightarrow> True | _ \<Rightarrow> False)"

definition z_number :: "json option \<Rightarrow> bool" where
  "z_number v = (case v of Some (JNum n) \<Rightarrow> True | _ \<Rightarrow> False)"

definition z_string_array :: "json option \<Rightarrow> bool" where
  "z_string_array v =
     (case v of Some (JArr xs) \<Rightarrow> list_all (\<lambda>x. z_string (Some x)) xs | _ \<Rightarrow> False)"

definition buttonPropsSchema :: "(string \<times> json) list \<Rightarrow> bool" where
  "buttonPropsSchema ps \<longleftrightarrow>
     strict [''label'', ''variant''] ps \<and> z_string_min1 (field ps ''label'')
     \<and> (case field ps ''variant'' of
          None \<Rightarrow> True
        | Some (JStr v) \<Rightarrow> v \<in> set [''primary'', ''secondary'']
        | Some _ \<Rightarrow> False)"

definition cardPropsSchema :: "(string \<times> json) list \<Rightarrow> bool" where
  "cardPropsSchema ps \<longleftrightarrow> strict [''title''] ps \<and> z_string_min1 (field ps ''title'')"

definition inputPropsSchema :: "(string \<times> json) list \<Rightarrow> bool" where
  "inputPropsSchema ps \<longleftrightarrow>
     strict [''label'', ''placeholder'', ''value''] ps \<and> z_string_min1 (field ps ''label'')
     \<and> z_string_optional (field ps ''placeholder'') \<and> z_string_optional (field ps ''value'')"

definition tablePropsSchema :: "(string \<times> json) list \<Rightarrow> bool" where
  "tablePropsSchema ps \<longleftrightarrow>
     strict [''columns'', ''rows''] ps \<and> z_string_array (field ps ''columns'')
     \<and> (case field ps ''rows'' of
          Some (JArr rows) \<Rightarrow> list_all (\<lambda>r. z_string_array (Some r)) rows
        | _ \<Rightarrow> False)"

definition modalPropsSchema :: "(string \<times> json) list \<Rightarrow> bool" where
  "modalPropsSchema ps \<longleftrightarrow>
     strict [''title'', ''open''] ps \<and> z_string_min1 (field ps ''title'')
     \<and> z_boolean (field ps ''open'')"

definition sidebarPropsSchema :: "(string \<times> json) list \<Rightarrow> bool" where
  "sidebarPropsSchema ps \<longleftrightarrow>
     strict [''title'', ''items''] ps \<and> z_string_min1 (field ps ''title'')
     \<and> z_string_array (field ps ''items'')"

definition navbarPropsSchema :: "(string \<times> json) list \<Rightarrow> bool" where
  "navbarPropsSchema ps \<longleftrightarrow>
     strict [''title'', ''links''] ps \<and> z_string_min1 (field ps ''title'')
     \<and> z_string_array (field ps ''links'')"

definition chartPointSchema :: "json \<Rightarrow> bool" where
  "chartPointSchema p =
     (case p of
        JObj kvs \<Rightarrow> strict [''label'', ''value''] kvs \<and> z_string (field kvs ''label'')
                    \<and> z_number (field kvs ''value'')
      | _ \<Rightarrow> False)"

definition chartPropsSchema :: "(string \<times> json) list \<Rightarrow> bool" where
  "chartPropsSchema ps \<longleftrightarrow>
     strict [''title'', ''data''] ps \<and> z_string_min1 (field ps ''title'')
     \<and> (case field ps ''data'' of Some (JArr d) \<Rightarrow> list_all chartPointSchema d | _ \<Rightarrow> False)"

text \<open>\<open>componentPropsValidators\<close>: the record has an entry for each of the eight
  components and none for any other string.\<close>

definition componentPropsValidators :: "string \<Rightarrow> ((string \<times> json) list \<Rightarrow> bool) option" where
  "componentPropsValidators c =
     map_of [(''Button'', buttonPropsSchema), (''Card'', cardPropsSchema),
             (''Input'', inputPropsSchema), (''Table'', tablePropsSchema),
             (''Modal'', modalPropsSchema), (''Sidebar'', sidebarPropsSchema),
             (''Navbar'', navbarPropsSchema), (''Chart'', chartPropsSchema)] c"

definition childCapableComponents :: "string list" where
  "childCapableComponents = [''Card'', ''Modal'']"

text \<open>
  \<open>validateNodeSchema\<close> pushes its messages on the array \<open>errors\<close>; the model returns the
  messages pushed, in order. \<open>validateChildren cs path idx\<close> is the \<open>forEach\<close> over the
  children from index \<open>idx\<close> on. The function is called on the result of \<open>uiPlanSchema\<close>
  only, where every component has a validator; a component without one is reported as
  invalid props here.
\<close>

fun validateNodeSchema :: "UINode \<Rightarrow> string \<Rightarrow> string list"
  and validateChildren :: "UINode list \<Rightarrow> string \<Rightarrow> nat \<Rightarrow> string list" where
  "validateNodeSchema (UINode i c ps ch) path =
     (if (case componentPropsValidators c of None \<Rightarrow> False | Some validator \<Rightarrow> validator ps)
      then [] else [path @ '': invalid props for '' @ c])
     @ (if c \<notin> set childCapableComponents
           \<and> (case ch of None \<Rightarrow> False | Some cs \<Rightarrow> length cs \<noteq> 0)
        then [path @ '': '' @ c @ '' does not allow children''] else [])
     @ (case ch of None \<Rightarrow> [] | Some cs \<Rightarrow> validateChildren cs path 0)"
| "validateChildren [] path idx = []"
| "validateChildren (child # rest) path idx =
     validateNodeSchema child (path @ ''.children['' @ decimal idx @ '']'')
     @ validateChildren rest path (idx + 1)"

fun validateRoots :: "UINode list \<Rightarrow> nat \<Rightarrow> string list" where
  "validateRoots [] idx = []"
| "validateRoots (n # rest) idx =
     validateNodeSchema n (''root['' @ decimal idx @ '']'') @ validateRoots rest (idx + 1)"

datatype plan_error = SchemaError | SemanticErrors string

definition validatePlan :: "json \<Rightarrow> plan_error + UIPlan" where
  "validatePlan payload =
     (case uiPlanSchema payload of
        None \<Rightarrow> Inl SchemaError
      | Some data \<Rightarrow>
          (let semanticErrors = validateRoots (root data) 0
           in if semanticErrors \<noteq> [] then Inl (SemanticErrors (join ''; '' semanticErrors))
              else Inr data))"

text \<open>
  Two predicates on typed nodes, used to state what the two phases of \<open>validatePlan\<close>
  accept: \<open>shape_ok\<close> is what \<open>uiNodeSchema\<close> asks of a node and its descendants,
  \<open>semantic_ok\<close> is that \<open>validateNodeSchema\<close> pushes no message.
\<close>

fun shape_ok :: "UINode \<Rightarrow> bool" where
  "shape_ok (UINode i c ps ch) \<longleftrightarrow>
     i \<noteq> [] \<and> c \<in> set ALLOWED_COMPONENTS
     \<and> (case ch of None \<Rightarrow> True | Some cs \<Rightarrow> list_all shape_ok cs)"

fun semantic_ok :: "UINode \<Rightarrow> bool" where
  "semantic_ok (UINode i c ps ch) \<longleftrightarrow>
     (case componentPropsValidators c of None \<Rightarrow> False | Some validator \<Rightarrow> validator ps)
     \<and> (c \<in> set childCapableComponents \<or> (case ch of None \<Rightarrow> True | Some cs \<Rightarrow> cs = []))
     \<and> (case ch of None \<Rightarrow> True | Some cs \<Rightarrow> list_all semantic_ok cs)"

definition node_ok :: "UINode \<Rightarrow> bool" where
  "node_ok n \<longleftrightarrow> shape_ok n \<and> semantic_ok n"

definition plan_ok :: "UIPlan \<Rightarrow> bool" where
  "plan_ok plan \<longleftrightarrow>
     mode plan \<in> set [''stack'', ''grid'', ''split''] \<and> root plan \<noteq> []
     \<and> list_all node_ok (root plan)"

section \<open>JSON text\<close>

abbreviation dquote :: char where "dquote \<equiv> CHR 0x22"
abbreviation backslash :: char where "backslash \<equiv> CHR 0x5C"
abbreviation backtick :: char where "backtick \<equiv> CHR 0x60"
abbreviation newline :: char where "newline \<equiv> CHR 0x0A"

subsection \<open>\<open>JSON.stringify\<close>\<close>

definition hex_digit :: "int \<Rightarrow> char" where
  "hex_digit d = (if d < 10 then char_of (48 + d) else char_of (87 + d))"

text \<open>\<open>QuoteJSONString\<close> on one code unit: the short escapes, \<open>\u00XX\<close> for the other
  control characters, and the character itself otherwise.\<close>

definition quote_char :: "char \<Rightarrow> string" where
  "quote_char c =
     (if c = CHR 0x08 then [backslash, CHR ''b'']
      else if c = CHR 0x09 then [backslash, CHR ''t'']
      else if c = CHR 0x0A then [backslash, CHR ''n'']
      else if c = CHR 0x0C then [backslash, CHR ''f'']
      else if c = CHR 0x0D then [backslash, CHR ''r'']
      else if c = dquote then [backslash, dquote]
      else if c = backslash then [backslash, backslash]
      else if charCode c < 32
        then [backslash, CHR ''u'', CHR ''0'', CHR ''0'',
              hex_digit (charCode c div 16), hex_digit (charCode c mod 16)]
      else [c])"

definition quote :: "string \<Rightarrow> string" where
  "quote s = [dquote] @ concat (map quote_char s) @ [dquote]"

definition number_text :: "int \<Rightarrow> string" where
  "number_text n = (if n < 0 then ''-'' @ decimal (nat (- n)) else decimal (nat n))"

text \<open>\<open>stringify gap indent v\<close> is \<open>SerializeJSONProperty\<close> with the gap \<open>gap\<close> (empty for
  \<open>JSON.stringify(v)\<close>, two spaces for \<open>JSON.stringify(v, null, 2)\<close>) at the current
  indentation \<open>indent\<close>.\<close>

fun stringify :: "string \<Rightarrow> string \<Rightarrow> json \<Rightarrow> string"
  and stringify_items :: "string \<Rightarrow> string \<Rightarrow> json list \<Rightarrow> string list"
  and stringify_members :: "string \<Rightarrow> string \<Rightarrow> (string \<times> json) list \<Rightarrow> string list" where
  "stringify gap indent JNull = ''null''"
| "stringify gap indent (JBool b) = (if b then ''true'' else ''false'')"
| "stringify gap indent (JNum n) = number_text n"
| "stringify gap indent (JStr s) = quote s"
| "stringify gap indent (JArr xs) =
     (if xs = [] then ''[]''
      else if gap = [] then ''['' @ join '','' (stringify_items gap indent xs) @ '']''
      else ''['' @ [newline] @ (indent @ gap)
           @ join ('','' @ [newline] @ (indent @ gap)) (stringify_items gap (indent @ gap) xs)
           @ [newline] @ indent @ '']'')"
| "stringify gap indent (JObj kvs) =
     (if kvs = [] then ''{}''
      else if gap = [] then ''{'' @ join '','' (stringify_members gap indent kvs) @ ''}''
      else ''{'' @ [newline] @ (indent @ gap)
           @ join ('','' @ [newline] @ (indent @ gap)) (stringify_members gap (indent @ gap) kvs)
           @ [newline] @ indent @ ''}'')"
| "stringify_items gap indent [] = []"
| "stringify_items gap indent (x # xs) = stringify gap indent x # stringify_items gap indent xs"
| "stringify_members gap indent [] = []"
| "stringify_members gap indent ((k, v) # kvs) =
     (quote k @ '':'' @ (if gap = [] then [] else '' '') @ stringify gap indent v)
     # stringify_members gap indent kvs"

definition JSON_stringify :: "json \<Rightarrow> string" where
  "JSON_stringify v = stringify [] [] v"

definition JSON_stringify_2 :: "json \<Rightarrow> string" where
  "JSON_stringify_2 v = stringify ''  '' [] v"

subsection \<open>\<open>JSON.parse\<close>\<close>

text \<open>
  \<open>JSON.parse\<close> on the texts whose values the model has: the grammar of JSON with integer
  number literals and \<open>\u\<close> escapes below \<open>0100\<close>. A number with a fraction or an
  exponent and an escape of a code unit above 255 are outside the model, and the model
  gives \<open>None\<close> for a text that has one. \<open>None\<close> is otherwise the \<open>SyntaxError\<close> that
  \<open>JSON.parse\<close> throws. The text is cut into tokens, and the tokens are read by an
  automaton with a stack of the arrays and objects that are open.
\<close>

datatype token = LBrace | RBrace | LBracket | RBracket | Colon | Comma | Scalar json

definition hex_value :: "char \<Rightarrow> int option" where
  "hex_value c =
     (if is_digit c then Some (charCode c - 48)
      else if 97 \<le> charCode c \<and> charCode c \<le> 102 then Some (charCode c - 87)
      else if 65 \<le> charCode c \<and> charCode c \<le> 70 then Some (charCode c - 55)
      else None)"

definition hex4 :: "char \<Rightarrow> char \<Rightarrow> char \<Rightarrow> char \<Rightarrow> int option" where
  "hex4 a b c d =
     (case (hex_value a, hex_value b, hex_value c, hex_value d) of
        (Some w, Some x, Some y, Some z) \<Rightarrow> Some (4096 * w + 256 * x + 16 * y + z)
      | _ \<Rightarrow> None)"

definition unescape :: "char \<Rightarrow> char option" where
  "unescape e =
     (if e = dquote then Some dquote
      else if e = backslash then Some backslash
      else if e = CHR ''/'' then Some (CHR ''/'')
      else if e = CHR ''b'' then Some (CHR 0x08)
      else if e = CHR ''f'' then Some (CHR 0x0C)
      else if e = CHR ''n'' then Some (CHR 0x0A)
      else if e = CHR ''r'' then Some (CHR 0x0D)
      else if e = CHR ''t'' then Some (CHR 0x09)
      else None)"

definition prepend :: "char \<Rightarrow> (string \<times> string) option \<Rightarrow> (string \<times> string) option" where
  "prepend c r = (case r of None \<Rightarrow> None | Some (s, rest) \<Rightarrow> Some (c # s, rest))"

text \<open>\<open>lex_string s\<close> reads a string literal after its opening quote: the string and the
  text after the closing quote.\<close>

fun lex_string :: "string \<Rightarrow> (string \<times> string) option" where
  "lex_string [] = None"
| "lex_string (c # cs) =
     (if c = dquote then Some ([], cs)
      else if c = backslash then
        (case cs of
           [] \<Rightarrow> None
         | e # rest \<Rightarrow>
             if e = CHR ''u'' then
               (case rest of
                  h1 # h2 # h3 # h4 # rest' \<Rightarrow>
                    (case hex4 h1 h2 h3 h4 of
                       None \<Rightarrow> None
                     | Some n \<Rightarrow> if n < 256 then prepend (char_of n) (lex_string rest') else None)
                | _ \<Rightarrow> None)
             else
               (case unescape e of
                  None \<Rightarrow> None
                | Some ch \<Rightarrow> prepend ch (lex_string rest)))
      else if charCode c < 32 then None
      else prepend c (lex_string cs))"

definition digits_value :: "string \<Rightarrow> int" where
  "digits_value ds = foldl (\<lambda>n d. 10 * n + (charCode d - 48)) 0 ds"

text \<open>\<open>lex_number s\<close> reads an integer literal at the start of \<open>s\<close>: no leading zero, and
  no fraction or exponent after it.\<close>

definition lex_number :: "string \<Rightarrow> (int \<times> string) option" where
  "lex_number s =
     (let negative = (s \<noteq> [] \<and> hd s = CHR ''-'');
          body = (if negative then tl s else s);
          ds = takeWhile is_digit body;
          rest = dropWhile is_digit body
      in if ds = [] \<or> (length ds > 1 \<and> hd ds = CHR ''0'') then None
         else if rest \<noteq> [] \<and> hd rest \<in> set ''.eE'' then None
         else Some (if negative then - digits_value ds else digits_value ds, rest))"

lemma prepend_Some:
  "prepend c r = Some (v, rest) \<Longrightarrow> \<exists>v'. r = Some (v', rest)"
  by (auto simp: prepend_def split: option.splits)

lemma lex_string_shorter: "lex_string s = Some (v, rest) \<Longrightarrow> length rest < length s"
proof (induction s arbitrary: v rest rule: lex_string.induct)
  case 1
  then show ?case by simp
next
  case (2 c cs)
  show ?case
  proof (cases "c = dquote")
    case True
    with "2.prems" show ?thesis by simp
  next
    case nq: False
    show ?thesis
    proof (cases "c = backslash")
      case nb: False
      with nq "2.prems" have lt: "\<not> charCode c < 32" and "prepend c (lex_string cs) = Some (v, rest)"
        by (auto split: if_splits)
      then obtain v' where "lex_string cs = Some (v', rest)" using prepend_Some by blast
      with "2.IH"(3) [OF nq nb lt] show ?thesis by fastforce
    next
      case b: True
      show ?thesis
      proof (cases cs)
        case Nil
        with nq b "2.prems" show ?thesis by simp
      next
        case (Cons e r)
        show ?thesis
        proof (cases "e = CHR ''u''")
          case ne: False
          with nq b Cons "2.prems" obtain ch where ch: "unescape e = Some ch"
            and "prepend ch (lex_string r) = Some (v, rest)"
            by (auto split: option.splits)
          then obtain v' where "lex_string r = Some (v', rest)" using prepend_Some by blast
          with "2.IH"(2) [OF nq b Cons ne ch] Cons show ?thesis by fastforce
        next
          case u: True
          with nq b Cons "2.prems" obtain h1 h2 h3 h4 r' n where r: "r = h1 # h2 # h3 # h4 # r'"
            and n: "hex4 h1 h2 h3 h4 = Some n" and lt: "n < 256"
            and "prepend (char_of n) (lex_string r') = Some (v, rest)"
            by (auto split: list.splits option.splits if_splits)
          then obtain v' where "lex_string r' = Some (v', rest)" using prepend_Some by blast
          with "2.IH"(1) [OF nq b Cons u r _ _ _ n lt] Cons r show ?thesis by fastforce
        qed
      qed
    qed
  qed
qed

lemma lex_number_shorter: "lex_number s = Some (n, rest) \<Longrightarrow> length rest < length s"
proof -
  assume a: "lex_number s = Some (n, rest)"
  define body where "body = (if s \<noteq> [] \<and> hd s = CHR ''-'' then tl s else s)"
  have 1: "takeWhile is_digit body \<noteq> []" and 2: "rest = dropWhile is_digit body"
    using a by (auto simp: lex_number_def Let_def body_def split: if_splits)
  have "length (takeWhile is_digit body) + length (dropWhile is_digit body) = length body"
    by (metis length_append takeWhile_dropWhile_id)
  with 1 2 have "length rest < length body" by (cases "takeWhile is_digit body") auto
  moreover have "length body \<le> length s" by (cases s) (auto simp: body_def)
  ultimately show ?thesis by simp
qed

function tokenize :: "string \<Rightarrow> token list option" where
  "tokenize [] = Some []"
| "tokenize (c # cs) =
     (if c \<in> set [CHR 0x09, CHR 0x0A, CHR 0x0D, CHR 0x20] then tokenize cs
      else if c = CHR ''{'' then map_option (Cons LBrace) (tokenize cs)
      else if c = CHR ''}'' then map_option (Cons RBrace) (tokenize cs)
      else if c = CHR ''['' then map_option (Cons LBracket) (tokenize cs)
      else if c = CHR '']'' then map_option (Cons RBracket) (tokenize cs)
      else if c = CHR '':'' then map_option (Cons Colon) (tokenize cs)
      else if c = CHR '','' then map_option (Cons Comma) (tokenize cs)
      else if c = dquote then
        (case lex_string cs of
           None \<Rightarrow> None
         | Some (s, rest) \<Rightarrow> map_option (Cons (Scalar (JStr s))) (tokenize rest))
      else if c = CHR ''-'' \<or> is_digit c then
        (case lex_number (c # cs) of
           None \<Rightarrow> None
         | Some (n, rest) \<Rightarrow> map_option (Cons (Scalar (JNum n))) (tokenize rest))
      else if take 4 (c # cs) = ''true''
        then map_option (Cons (Scalar (JBool True))) (tokenize (drop 3 cs))
      else if take 5 (c # cs) = ''false''
        then map_option (Cons (Scalar (JBool False))) (tokenize (drop 4 cs))
      else if take 4 (c # cs) = ''null''
        then map_option (Cons (Scalar JNull)) (tokenize (drop 3 cs))
      else None)"
  by pat_completeness auto
termination
  apply (relation "measure length")
                apply simp_all
  subgoal for c cs x2 x y using lex_string_shorter [of cs x y] by simp
  subgoal for c cs x2 x y using lex_number_shorter [of "c # cs" x y] by simp
  done

text \<open>An open array with its elements so far, or an open object with its members so far
  and the key that waits for its value.\<close>

datatype frame = ArrayFrame "json list" | ObjectFrame "(string \<times> json) list" "string option"

datatype phase =
    WantValue | WantValueOrClose | WantKey | WantKeyOrClose | WantColon | WantCommaOrClose | Done json

text \<open>Defining a property: a key that is there already keeps its place and takes the new
  value.\<close>

fun set_property :: "string \<Rightarrow> json \<Rightarrow> (string \<times> json) list \<Rightarrow> (string \<times> json) list" where
  "set_property k v [] = [(k, v)]"
| "set_property k v (p # ps) = (if fst p = k then (k, v) # ps else p # set_property k v ps)"

text \<open>A value is complete: it is the result, or it goes into the array or the object on
  top of the stack.\<close>

definition complete :: "json \<Rightarrow> frame list \<Rightarrow> (frame list \<times> phase) option" where
  "complete v stack =
     (case stack of
        [] \<Rightarrow> Some ([], Done v)
      | ArrayFrame xs # below \<Rightarrow> Some (ArrayFrame (xs @ [v]) # below, WantCommaOrClose)
      | ObjectFrame kvs (Some k) # below \<Rightarrow>
          Some (ObjectFrame (set_property k v kvs) None # below, WantCommaOrClose)
      | ObjectFrame kvs None # below \<Rightarrow> None)"

definition open_or_scalar :: "token \<Rightarrow> frame list \<Rightarrow> (frame list \<times> phase) option" where
  "open_or_scalar t stack =
     (case t of
        Scalar v \<Rightarrow> complete v stack
      | LBracket \<Rightarrow> Some (ArrayFrame [] # stack, WantValueOrClose)
      | LBrace \<Rightarrow> Some (ObjectFrame [] None # stack, WantKeyOrClose)
      | _ \<Rightarrow> None)"

definition take_key :: "token \<Rightarrow> frame list \<Rightarrow> (frame list \<times> phase) option" where
  "take_key t stack =
     (case (t, stack) of
        (Scalar (JStr k), ObjectFrame kvs None # below) \<Rightarrow>
          Some (ObjectFrame kvs (Some k) # below, WantColon)
      | _ \<Rightarrow> None)"

definition close :: "token \<Rightarrow> frame list \<Rightarrow> (frame list \<times> phase) option" where
  "close t stack =
     (case (t, stack) of
        (RBracket, ArrayFrame xs # below) \<Rightarrow> complete (JArr xs) below
      | (RBrace, ObjectFrame kvs None # below) \<Rightarrow> complete (JObj kvs) below
      | _ \<Rightarrow> None)"

definition parse_step :: "token \<Rightarrow> frame list \<times> phase \<Rightarrow> (frame list \<times> phase) option" where
  "parse_step t st =
     (case st of (stack, ph) \<Rightarrow>
        (case ph of
           WantValue \<Rightarrow> open_or_scalar t stack
         | WantValueOrClose \<Rightarrow> (if t = RBracket then close t stack else open_or_scalar t stack)
         | WantKey \<Rightarrow> take_key t stack
         | WantKeyOrClose \<Rightarrow> (if t = RBrace then close t stack else take_key t stack)
         | WantColon \<Rightarrow> (if t = Colon then Some (stack, WantValue) else None)
         | WantCommaOrClose \<Rightarrow>
             (if t = Comma then
                (case stack of
                   ArrayFrame xs # below \<Rightarrow> Some (stack, WantValue)
                 | ObjectFrame kvs k # below \<Rightarrow> Some (stack, WantKey)
                 | [] \<Rightarrow> None)
              else close t stack)
         | Done v \<Rightarrow> None))"

fun parse_tokens :: "token list \<Rightarrow> frame list \<times> phase \<Rightarrow> json option" where
  "parse_tokens [] st = (case snd st of Done v \<Rightarrow> Some v | _ \<Rightarrow> None)"
| "parse_tokens (t # ts) st =
     (case parse_step t st of None \<Rightarrow> None | Some st' \<Rightarrow> parse_tokens ts st')"

definition JSON_parse :: "string \<Rightarrow> json option" where
  "JSON_parse s =
     (case tokenize s of None \<Rightarrow> None | Some ts \<Rightarrow> parse_tokens ts ([], WantValue))"

section \<open>Code generator (agent/generator.ts) and code checks\<close>

datatype error =
    IntentRequired
  | InvalidPlan plan_error
  | WhitelistViolation string
  | UnsafeCode string
  | FetchRejected
  | ResponseUnreadable

fun renderNode :: "UINode \<Rightarrow> nat \<Rightarrow> string"
  and renderNodes :: "UINode list \<Rightarrow> nat \<Rightarrow> string list" where
  "renderNode (UINode i c ps ch) depth =
     (let indent = replicate depth (CHR '' '');
          rendered = join [newline]
                       (case ch of None \<Rightarrow> [] | Some cs \<Rightarrow> renderNodes cs (depth + 2));
          safeProps = JSON_stringify (JObj ps)
      in if length rendered \<noteq> 0
         then indent @ ''<'' @ c @ '' {...'' @ safeProps @ ''}>'' @ [newline] @ rendered
              @ [newline] @ indent @ ''</'' @ c @ ''>''
         else indent @ ''<'' @ c @ '' {...'' @ safeProps @ ''} />'')"
| "renderNodes [] depth = []"
| "renderNodes (child # rest) depth = renderNode child depth # renderNodes rest depth"

text \<open>\<open>layoutClassMap[mode]\<close>; a mode outside the three keys reads \<open>undefined\<close>.\<close>

definition layoutClassMap :: "string \<Rightarrow> string" where
  "layoutClassMap m =
     (if m = ''stack'' then ''space-y-4''
      else if m = ''grid'' then ''grid grid-cols-1 gap-4 md:grid-cols-2''
      else if m = ''split'' then ''grid grid-cols-1 gap-4 lg:grid-cols-[260px_1fr]''
      else ''undefined'')"

text \<open>\<open>composeLayout\<close>: the template starts with a line break, and \<open>trimEnd\<close> removes the
  line break and the two spaces after \<open></section>\<close>.\<close>

definition composeLayout :: "UINode list \<Rightarrow> string \<Rightarrow> string" where
  "composeLayout nodes m =
     (let itemMarkup = join [newline] (renderNodes nodes 6)
      in [newline] @ ''    <section className='' @ [dquote] @ layoutClassMap m @ [dquote] @ ''>''
         @ [newline] @ itemMarkup @ [newline] @ ''    </section>'')"

fun collectComponents :: "UINode \<Rightarrow> string list"
  and collectComponentsAll :: "UINode list \<Rightarrow> string list" where
  "collectComponents (UINode i c ps ch) =
     c # (case ch of None \<Rightarrow> [] | Some cs \<Rightarrow> collectComponentsAll cs)"
| "collectComponentsAll [] = []"
| "collectComponentsAll (child # rest) = collectComponents child @ collectComponentsAll rest"

text \<open>\<open>validateGeneratedCode\<close>: the error of the first check that fails, \<open>None\<close> when the
  code is valid.\<close>

definition ui_import :: string where
  "ui_import = ''from '' @ [dquote] @ ''@/components/ui'' @ [dquote]"

definition badImport :: regex where
  "badImport =
     [lits ''from'' @ [Spaces, AnyOf [dquote, CHR 0x27], NotAhead ''@/components/ui'',
                       RunNoneOf [dquote, CHR 0x27], AnyOf [dquote, CHR 0x27]]]"

definition validateGeneratedCode :: "string \<Rightarrow> string option" where
  "validateGeneratedCode code =
     (if \<not> test [lits ui_import] code
        then Some ''Generated code must import from deterministic UI library''
      else if test badImport code then Some ''Generated code contains non-whitelisted imports''
      else if test [lits ''style={{''] code then Some ''Inline styles are forbidden''
      else if test [lits ''dangerouslySetInnerHTML''] code
        then Some ''dangerouslySetInnerHTML is forbidden''
      else None)"

record GeneratorResult =
  code :: string
  usedComponents :: "string list"

text \<open>\<open>s.replace(/`/g, "\\`")\<close>.\<close>

definition escape_backticks :: "string \<Rightarrow> string" where
  "escape_backticks s = concat (map (\<lambda>c. if c = backtick then [backslash, backtick] else [c]) s)"

definition generated_code :: "UIPlan \<Rightarrow> string list \<Rightarrow> string" where
  "generated_code plan used =
     (let imports = ''import { ''
            @ join '', '' (uniq (used @ [''Card'', ''Button'', ''Input'', ''Table'', ''Modal'',
                                        ''Sidebar'', ''Navbar'', ''Chart'']))
            @ '' } '' @ ui_import @ '';'';
          serializedPlan = escape_backticks (JSON_stringify_2 (plan_json plan))
      in imports @ [newline]
         @ [newline]
         @ ''const uiPlanJson = '' @ [backtick] @ serializedPlan @ [backtick] @ '';'' @ [newline]
         @ [newline]
         @ ''export default function GeneratedUI() {'' @ [newline]
         @ ''  return ('' @ [newline]
         @ ''    <main className='' @ [dquote] @ ''space-y-4'' @ [dquote] @ ''>'' @ [newline]
         @ composeLayout (root plan) (mode plan) @ [newline]
         @ ''    </main>'' @ [newline]
         @ ''  );'' @ [newline]
         @ ''}'' @ [newline])"

text \<open>\<open>runGenerator\<close>: each \<open>throw\<close> is an \<open>Inl\<close>. The field \<open>priorCode\<close> of the input is
  not read.\<close>

definition runGenerator :: "UIPlan \<Rightarrow> error + GeneratorResult" where
  "runGenerator plan =
     (case validatePlan (plan_json plan) of
        Inl e \<Rightarrow> Inl (InvalidPlan e)
      | Inr validated \<Rightarrow>
          (let used = uniq (collectComponentsAll (root plan));
               unauthorized = filter (\<lambda>c. c \<notin> set ALLOWED_COMPONENTS) used
           in if length unauthorized \<noteq> 0 then Inl (WhitelistViolation (join '', '' unauthorized))
              else
                (let text = generated_code plan used
                 in case validateGeneratedCode text of
                      Some e \<Rightarrow> Inl (UnsafeCode e)
                    | None \<Rightarrow> Inr \<lparr>code = text, usedComponents = used\<rparr>)))"

text \<open>
  \<open>parsePlanFromCode\<close>. The pattern is \<open>const\s+uiPlanJson\s*=\s*\<close>, a backtick, a lazy
  group and a backtick with a semicolon. The text \<open>const\<close> cannot start again inside a
  match of the part before the group, so the match is the leftmost one of that part,
  and the group is the text up to the first backtick with a semicolon after it. An empty
  group counts as no match (\<open>!match?.[1]\<close>).
\<close>

datatype parse_error = MarkerNotFound | InvalidPayload | PlanRejected plan_error

definition parsePlanFromCode :: "string \<Rightarrow> parse_error + UIPlan" where
  "parsePlanFromCode text =
     (case search_end (lits ''const'' @ [Spaces] @ lits ''uiPlanJson'' @ [Spaces0, Lit (CHR ''=''),
                         Spaces0, Lit backtick]) None text of
        None \<Rightarrow> Inl MarkerNotFound
      | Some after \<Rightarrow>
          (case before_first [backtick, CHR '';''] after of
             None \<Rightarrow> Inl MarkerNotFound
           | Some captured \<Rightarrow>
               if captured = [] then Inl MarkerNotFound
               else
                 (case JSON_parse captured of
                    None \<Rightarrow> Inl InvalidPayload
                  | Some parsed \<Rightarrow>
                      (case validatePlan parsed of
                         Inl e \<Rightarrow> Inl (PlanRejected e)
                       | Inr plan \<Rightarrow> Inr plan))))"

section \<open>Oracle, planner entry point, explainer, version store and pipeline\<close>

text \<open>
  The world outside the program, as one request sees it. \<open>apiKey\<close> is the environment
  variable \<open>OPENAI_API_KEY\<close>. \<open>fetch k\<close> is what happens to the \<open>k\<close>-th call of the oracle
  in the request (the planner's is call 0, the explainer's call 1): the promise of
  \<open>fetch\<close> rejects, or a response arrives with its flag \<open>ok\<close> and its body. The body is
  unreadable (\<open>response.json()\<close> rejects, or the body is not an object) or gives what
  \<open>choices?.[0]?.message?.content\<close> reads, \<open>None\<close> when a link is missing. \<open>clock k\<close> is
  the \<open>k\<close>-th reading of \<open>Date.now()\<close>; \<open>random_suffix\<close> and \<open>iso_time\<close> are the random part
  of a version identifier and the time stamp of a snapshot.
\<close>

datatype response_body = Unreadable | Content "string option"

datatype fetch_outcome = Rejected | Responded bool response_body

record world =
  apiKey :: "string option"
  fetch :: "nat \<Rightarrow> fetch_outcome"
  clock :: "nat \<Rightarrow> nat"
  random_suffix :: string
  iso_time :: string

text \<open>\<open>callLLM\<close> (lib/llm.ts): \<open>Inl\<close> is an exception that leaves the function.\<close>

definition callLLM :: "world \<Rightarrow> nat \<Rightarrow> error + string option" where
  "callLLM w k =
     (if (case apiKey w of None \<Rightarrow> True | Some key \<Rightarrow> key = []) then Inr None
      else
        (case fetch w k of
           Rejected \<Rightarrow> Inl FetchRejected
         | Responded ok body \<Rightarrow>
             if \<not> ok then Inr None
             else (case body of Unreadable \<Rightarrow> Inl ResponseUnreadable | Content c \<Rightarrow> Inr c)))"

definition suspiciousPatterns :: "regex list" where
  "suspiciousPatterns =
     [[lits ''ignore'' @ [Spaces] @ lits ''all'' @ [Spaces] @ lits ''instructions''],
      [lits ''system'' @ [Spaces] @ lits ''prompt''],
      [lits ''developer'' @ [Spaces] @ lits ''message''],
      [lits ''execute'' @ [Spaces] @ lits ''code''],
      [lits ''bypass'' @ [Spaces] @ lits ''safety'']]"

record Filtered =
  clean :: string
  flagged :: bool

definition filterPromptInjection :: "string \<Rightarrow> Filtered" where
  "filterPromptInjection input =
     \<lparr>clean = trim (filter (\<lambda>c. c \<noteq> CHR ''<'' \<and> c \<noteq> CHR ''>'') input),
      flagged = list_ex (\<lambda>pattern. test_i pattern input) suspiciousPatterns\<rparr>"

record PlannerInput =
  input_intent :: string
  priorPlan :: "UIPlan option"
  regenerateFromScratch :: bool

record PlannerResult =
  result_plan :: UIPlan
  warnings :: "string list"

text \<open>The plan of the oracle, when its answer is a non-empty text that parses and passes
  \<open>validatePlan\<close>; a \<open>SyntaxError\<close> of \<open>JSON.parse\<close> is caught.\<close>

definition oracle_plan :: "string option \<Rightarrow> UIPlan option" where
  "oracle_plan llmRaw =
     (case llmRaw of
        None \<Rightarrow> None
      | Some raw \<Rightarrow>
          if raw = [] then None
          else
            (case JSON_parse raw of
               None \<Rightarrow> None
             | Some parsed \<Rightarrow>
                 (case validatePlan parsed of Inl e \<Rightarrow> None | Inr accepted \<Rightarrow> Some accepted)))"

text \<open>\<open>runPlanner\<close>. The log of the stages is not modelled: the logger appends entries to
  a list that is returned beside the result and decides nothing.\<close>

definition runPlanner :: "world \<Rightarrow> PlannerInput \<Rightarrow> error + PlannerResult" where
  "runPlanner w input =
     (let filtered = filterPromptInjection (input_intent input);
          shouldFullRegenerate =
            (regenerateFromScratch input
             \<or> test_i [lits ''regenerate'' @ [Spaces] @ lits ''from'' @ [Spaces] @ lits ''scratch'']
                  (clean filtered));
          notes = (if flagged filtered then [''Prompt injection patterns were sanitized''] else [])
      in case callLLM w 0 of
           Inl e \<Rightarrow> Inl e
         | Inr llmRaw \<Rightarrow>
             (case oracle_plan llmRaw of
                Some accepted \<Rightarrow> Inr \<lparr>result_plan = accepted, warnings = notes\<rparr>
              | None \<Rightarrow>
                  (case priorPlan input of
                     None \<Rightarrow> Inr \<lparr>result_plan = buildIntentAwarePlan (clean filtered), warnings = notes\<rparr>
                   | Some prior \<Rightarrow>
                       if shouldFullRegenerate
                       then Inr \<lparr>result_plan = buildIntentAwarePlan (clean filtered), warnings = notes\<rparr>
                       else Inr \<lparr>result_plan = mergeModification (clock w) (clean filtered) prior,
                                  warnings = notes\<rparr>)))"

text \<open>\<open>runExplainer\<close> (agent/explainer.ts), without its log.\<close>

definition fallback_explanation :: "UIPlan \<Rightarrow> bool \<Rightarrow> string" where
  "fallback_explanation p isModification =
     join [newline]
       [''Layout mode: '' @ mode p
          @ '' was selected to match the requested information density and hierarchy.'',
        ''Component selection: '' @ join '', '' (uniq (map component (root p)))
          @ ''. All components come from the fixed deterministic library.'',
        if isModification
        then ''This is an incremental edit. Existing plan structure was preserved and only requested sections were updated.''
        else ''This was generated as a new baseline screen.'']"

definition runExplainer :: "world \<Rightarrow> UIPlan \<Rightarrow> bool \<Rightarrow> error + string" where
  "runExplainer w p isModification =
     (case callLLM w 1 of
        Inl e \<Rightarrow> Inl e
      | Inr llm \<Rightarrow>
          (case llm of
             None \<Rightarrow> Inr (fallback_explanation p isModification)
           | Some answer \<Rightarrow>
               if answer \<noteq> [] then Inr answer
               else Inr (fallback_explanation p isModification)))"

text \<open>The version store (lib/versionStore.ts): the array \<open>versions\<close>, oldest first. The
  field \<open>analysis\<close> of a snapshot, the report of \<open>analyzeGeneratedCode\<close>, is not modelled;
  that function returns a report for every code and plan.\<close>

datatype GenerationAction = generate | modify | regenerate

record VersionSnapshot =
  snapshot_id :: string
  createdAt :: string
  snapshot_intent :: string
  snapshot_action :: GenerationAction
  baseVersionId :: "string option"
  snapshot_plan :: UIPlan
  snapshot_code :: string
  explanation :: string

type_synonym VersionStore = "VersionSnapshot list"

definition store_latest :: "VersionStore \<Rightarrow> VersionSnapshot option" where
  "store_latest versions = (if versions = [] then None else Some (last versions))"

definition store_get :: "VersionStore \<Rightarrow> string \<Rightarrow> VersionSnapshot option" where
  "store_get versions i = find (\<lambda>v. snapshot_id v = i) versions"

definition store_add :: "world \<Rightarrow> VersionStore \<Rightarrow> string \<Rightarrow> GenerationAction \<Rightarrow> string option
    \<Rightarrow> UIPlan \<Rightarrow> string \<Rightarrow> string \<Rightarrow> VersionSnapshot \<times> VersionStore" where
  "store_add w versions i a base p c e =
     (let version = \<lparr>snapshot_id = ''v_'' @ decimal (clock w 3) @ ''_'' @ random_suffix w,
                      createdAt = iso_time w, snapshot_intent = i, snapshot_action = a,
                      baseVersionId = base, snapshot_plan = p, snapshot_code = c,
                      explanation = e\<rparr>
      in (version, versions @ [version]))"

record AgentRequestBody =
  request_intent :: "string option"
  request_action :: "GenerationAction option"
  request_baseVersionId :: "string option"

record PipelineResult =
  version :: VersionSnapshot
  result_warnings :: "string list"

text \<open>The base snapshot of a request: the one named by \<open>baseVersionId\<close>, or the latest.\<close>

definition workingBase :: "VersionStore \<Rightarrow> AgentRequestBody \<Rightarrow> VersionSnapshot option" where
  "workingBase versions body =
     (let baseVersion =
            (case request_baseVersionId body of
               None \<Rightarrow> None
             | Some i \<Rightarrow> if i = [] then None else store_get versions i)
      in case baseVersion of Some b \<Rightarrow> Some b | None \<Rightarrow> store_latest versions)"

definition request_text :: "AgentRequestBody \<Rightarrow> string" where
  "request_text body = (case request_intent body of None \<Rightarrow> [] | Some t \<Rightarrow> trim t)"

definition action_of :: "AgentRequestBody \<Rightarrow> GenerationAction" where
  "action_of body = (case request_action body of None \<Rightarrow> generate | Some a \<Rightarrow> a)"

definition planner_input :: "VersionStore \<Rightarrow> AgentRequestBody \<Rightarrow> PlannerInput" where
  "planner_input versions body =
     \<lparr>input_intent = request_text body,
      priorPlan = (if action_of body = modify
                   then map_option snapshot_plan (workingBase versions body) else None),
      regenerateFromScratch = (action_of body = regenerate)\<rparr>"

text \<open>\<open>executePipeline\<close> (app/api/agent/route.ts): the result or the exception, and the
  store after the request.\<close>

definition executePipeline :: "world \<Rightarrow> VersionStore \<Rightarrow> AgentRequestBody
    \<Rightarrow> (error + PipelineResult) \<times> VersionStore" where
  "executePipeline w versions body =
     (if request_text body = [] then (Inl IntentRequired, versions)
      else
        (case runPlanner w (planner_input versions body) of
           Inl e \<Rightarrow> (Inl e, versions)
         | Inr planner \<Rightarrow>
             (case runGenerator (result_plan planner) of
                Inl e \<Rightarrow> (Inl e, versions)
              | Inr generator \<Rightarrow>
                  (case runExplainer w (result_plan planner)
                          (action_of body = modify \<and> workingBase versions body \<noteq> None) of
                     Inl e \<Rightarrow> (Inl e, versions)
                   | Inr explained \<Rightarrow>
                       (case store_add w versions (request_text body) (action_of body)
                               (map_option snapshot_id (workingBase versions body))
                               (result_plan planner) (code generator) explained of
                          (stored, versions') \<Rightarrow>
                            (Inr \<lparr>version = stored, result_warnings = warnings planner\<rparr>,
                             versions'))))))"

section \<open>Example inputs\<close>

text \<open>A plan with one button, and a plan with one card whose title has a backtick.\<close>

definition button_plan :: UIPlan where
  "button_plan =
     \<lparr>mode = ''stack'', root = [UINode ''go'' ''Button'' [(''label'', JStr ''Go'')] None],
      modificationInstructions = None\<rparr>"

definition backtick_plan :: UIPlan where
  "backtick_plan =
     \<lparr>mode = ''stack'',
      root = [UINode ''c'' ''Card'' [(''title'', JStr [CHR ''a'', backtick, CHR ''b''])] None],
      modificationInstructions = None\<rparr>"

text \<open>A plan whose card title is a word that \<open>validateGeneratedCode\<close> forbids, a world
  whose oracle answers with that plan, and a request.\<close>

definition unsafe_plan :: UIPlan where
  "unsafe_plan =
     \<lparr>mode = ''stack'',
      root = [UINode ''c'' ''Card'' [(''title'', JStr ''dangerouslySetInnerHTML'')] None],
      modificationInstructions = None\<rparr>"

definition unsafe_world :: world where
  "unsafe_world =
     \<lparr>apiKey = Some ''key'',
      fetch = (\<lambda>k. Responded True (Content (Some (JSON_stringify (plan_json unsafe_plan))))),
      clock = (\<lambda>k. 0), random_suffix = ''abc123'', iso_time = ''2024-01-01T00:00:00.000Z''\<rparr>"

definition card_request :: AgentRequestBody where
  "card_request =
     \<lparr>request_intent = Some ''a card'', request_action = None, request_baseVersionId = None\<rparr>"

text \<open>A world whose oracle has credentials and cannot be reached.\<close>

definition unreachable_world :: world where
  "unreachable_world =
     \<lparr>apiKey = Some ''key'', fetch = (\<lambda>k. Rejected), clock = (\<lambda>k. 0),
      random_suffix = ''abc123'', iso_time = ''2024-01-01T00:00:00.000Z''\<rparr>"

text \<open>The two intents of the scenario of the iterative edit (tests/iterative-edit.example.ts).\<close>

definition firstIntent :: string where
  "firstIntent = ''Create a dashboard with navbar, sidebar, card and chart''"

definition secondIntent :: string where
  "secondIntent = ''Add a settings modal and make the layout minimal''"

text \<open>A plan whose only chart is a child of a card.\<close>

definition nested_chart_plan :: UIPlan where
  "nested_chart_plan =
     \<lparr>mode = ''split'',
      root = [UINode ''card-1'' ''Card'' [(''title'', JStr ''Sales'')]
                (Some [UINode ''chart-2'' ''Chart''
                         [(''title'', JStr ''Sales''), (''data'', JArr [])] None])],
      modificationInstructions = None\<rparr>"

section \<open>Properties of the diff engine\<close>

lemma split_char_nonempty: "split_char sep s \<noteq> []"
  by (induction s) (auto split: list.splits)

lemma join_Cons_nonempty: "ys \<noteq> [] \<Longrightarrow> join sep (x # ys) = x @ sep @ join sep ys"
  by (cases ys) auto

lemma join_split_char: "join [sep] (split_char sep s) = s"
proof (induction s)
  case Nil
  show ?case by simp
next
  case (Cons c cs)
  obtain l ls where r: "split_char sep cs = l # ls"
    using split_char_nonempty [of sep cs] by (cases "split_char sep cs") auto
  show ?case
  proof (cases "c = sep")
    case True
    with Cons r show ?thesis by simp
  next
    case False
    with Cons r show ?thesis by (cases ls) auto
  qed
qed

lemma keeps_snoc:
  "keeps k (d @ [DiffLine k' t]) = (if k' = k then keeps k d else keeps k d @ [t])"
  by (simp add: keeps_def)

lemma walk_inv:
  assumes "walk a b dp i j out = (i', j', out')"
    and "keeps added out = take i a" and "keeps removed out = take j b"
    and "i \<le> length a" and "j \<le> length b"
  shows "keeps added out' = take i' a \<and> keeps removed out' = take j' b
         \<and> i' \<le> length a \<and> j' \<le> length b"
  using assms
proof (induction a b dp i j out rule: walk.induct)
  case (1 a b dp i j out)
  show ?case
  proof (cases "i < length a \<and> j < length b")
    case False
    with "1.prems" show ?thesis by (simp add: walk.simps [of a b dp i j out])
  next
    case inb: True
    show ?thesis
    proof (cases "a ! i = b ! j")
      case True
      have "walk a b dp (i + 1) (j + 1) (out @ [DiffLine same (a ! i)]) = (i', j', out')"
        using "1.prems"(1) inb True by (simp add: walk.simps [of a b dp i j out])
      moreover have "keeps added (out @ [DiffLine same (a ! i)]) = take (i + 1) a"
        using "1.prems"(2) inb by (simp add: keeps_snoc take_Suc_conv_app_nth)
      moreover have "keeps removed (out @ [DiffLine same (a ! i)]) = take (j + 1) b"
        using "1.prems"(3) inb True by (simp add: keeps_snoc take_Suc_conv_app_nth)
      ultimately show ?thesis
        using "1.IH"(1) [OF inb True] inb by simp
    next
      case ne: False
      show ?thesis
      proof (cases "dp ! (i + 1) ! j \<ge> dp ! i ! (j + 1)")
        case True
        have "walk a b dp (i + 1) j (out @ [DiffLine removed (a ! i)]) = (i', j', out')"
          using "1.prems"(1) inb ne True by (simp add: walk.simps [of a b dp i j out])
        moreover have "keeps added (out @ [DiffLine removed (a ! i)]) = take (i + 1) a"
          using "1.prems"(2) inb by (simp add: keeps_snoc take_Suc_conv_app_nth)
        moreover have "keeps removed (out @ [DiffLine removed (a ! i)]) = take j b"
          using "1.prems"(3) by (simp add: keeps_snoc)
        ultimately show ?thesis
          using "1.IH"(2) [OF inb ne True] inb by simp
      next
        case False
        have "walk a b dp i (j + 1) (out @ [DiffLine added (b ! j)]) = (i', j', out')"
          using "1.prems"(1) inb ne False by (simp add: walk.simps [of a b dp i j out])
        moreover have "keeps added (out @ [DiffLine added (b ! j)]) = take i a"
          using "1.prems"(2) by (simp add: keeps_snoc)
        moreover have "keeps removed (out @ [DiffLine added (b ! j)]) = take (j + 1) b"
          using "1.prems"(3) inb by (simp add: keeps_snoc take_Suc_conv_app_nth)
        ultimately show ?thesis
          using "1.IH"(3) [OF inb ne False] inb by simp
      qed
    qed
  qed
qed

lemma drain_removed_keeps:
  "i \<le> length a \<Longrightarrow>
   keeps added (drain_removed a i out) = keeps added out @ drop i a
   \<and> keeps removed (drain_removed a i out) = keeps removed out"
proof (induction a i out rule: drain_removed.induct)
  case (1 a i out)
  show ?case
  proof (cases "i < length a")
    case True
    have "drain_removed a i out = drain_removed a (i + 1) (out @ [DiffLine removed (a ! i)])"
      using True by (subst drain_removed.simps) simp
    with "1.IH" True show ?thesis
      by (simp add: keeps_snoc Cons_nth_drop_Suc)
  next
    case False
    have "drain_removed a i out = out"
      using False by (subst drain_removed.simps) simp
    with "1.prems" False show ?thesis by simp
  qed
qed

lemma drain_added_keeps:
  "j \<le> length b \<Longrightarrow>
   keeps removed (drain_added b j out) = keeps removed out @ drop j b
   \<and> keeps added (drain_added b j out) = keeps added out"
proof (induction b j out rule: drain_added.induct)
  case (1 b j out)
  show ?case
  proof (cases "j < length b")
    case True
    have "drain_added b j out = drain_added b (j + 1) (out @ [DiffLine added (b ! j)])"
      using True by (subst drain_added.simps) simp
    with "1.IH" True show ?thesis
      by (simp add: keeps_snoc Cons_nth_drop_Suc)
  next
    case False
    have "drain_added b j out = out"
      using False by (subst drain_added.simps) simp
    with "1.prems" False show ?thesis by simp
  qed
qed

lemma buildLineDiff_keeps:
  "keeps added (buildLineDiff s t) = split_char (CHR 0x0A) s
   \<and> keeps removed (buildLineDiff s t) = split_char (CHR 0x0A) t"
proof -
  define a where "a = split_char (CHR 0x0A) s"
  define b where "b = split_char (CHR 0x0A) t"
  define dp where "dp = fill_table a b (length a) (dp_init (length a) (length b))"
  obtain i j out where w: "walk a b dp 0 0 [] = (i, j, out)"
    by (cases "walk a b dp 0 0 []") auto
  have inv: "keeps added out = take i a \<and> keeps removed out = take j b
             \<and> i \<le> length a \<and> j \<le> length b"
    by (rule walk_inv [OF w]) (simp_all add: keeps_def)
  have r: "buildLineDiff s t = drain_added b j (drain_removed a i out)"
    using w by (simp add: buildLineDiff_def Let_def a_def b_def dp_def)
  have 1: "keeps added (drain_removed a i out) = a"
    using drain_removed_keeps [of i a out] inv by simp
  have 2: "keeps removed (drain_removed a i out) = take j b"
    using drain_removed_keeps [of i a out] inv by simp
  have "keeps added (buildLineDiff s t) = a"
    using drain_added_keeps [of j b "drain_removed a i out"] inv 1 r by simp
  moreover have "keeps removed (buildLineDiff s t) = b"
    using drain_added_keeps [of j b "drain_removed a i out"] inv 2 r by simp
  ultimately show ?thesis by (simp add: a_def b_def)
qed

text \<open>
  Claim C9. For any two code strings \<open>a\<close> and \<open>b\<close>, the lines of the \<open>same\<close> and \<open>removed\<close>
  entries of \<open>buildLineDiff a b\<close>, in order and joined by newlines, are \<open>a\<close>; the lines of
  the \<open>same\<close> and \<open>added\<close> entries are \<open>b\<close>.
\<close>

theorem buildLineDiff_round_trip:
  "replay_without added (buildLineDiff a b) = a
   \<and> replay_without removed (buildLineDiff a b) = b"
  using buildLineDiff_keeps [of a b]
  by (simp add: replay_without_def keeps_def join_split_char)

section \<open>Properties of validation and of the deterministic planner\<close>

lemma those_map_Some:
  "(\<And>x. x \<in> set xs \<Longrightarrow> f x = Some (g x)) \<Longrightarrow> those (map f xs) = Some (map g xs)"
  by (induction xs) auto

lemma those_map_None:
  "x \<in> set xs \<Longrightarrow> f x = None \<Longrightarrow> those (map f xs) = None"
  by (induction xs) (auto split: option.splits)

lemma uiNodeSchema_node_json:
  "uiNodeSchema (node_json n) = (if shape_ok n then Some n else None)"
proof (induction n)
  case (UINode i c ps ch)
  have f1: "field ([(''id'', JStr i), (''component'', JStr c), (''props'', JObj ps)] @ rest) ''id'' = Some (JStr i)" for rest
    by (simp add: field_def)
  have f2: "field ([(''id'', JStr i), (''component'', JStr c), (''props'', JObj ps)] @ rest) ''component'' = Some (JStr c)" for rest
    by (simp add: field_def)
  have f3: "field ([(''id'', JStr i), (''component'', JStr c), (''props'', JObj ps)] @ rest) ''props'' = Some (JObj ps)" for rest
    by (simp add: field_def)
  show ?case
  proof (cases ch)
    case None
    have f4: "field [(''id'', JStr i), (''component'', JStr c), (''props'', JObj ps)] ''children'' = None"
      by (simp add: field_def)
    show ?thesis using None f1 [of "[]"] f2 [of "[]"] f3 [of "[]"] f4 by simp
  next
    case (Some cs)
    have f4: "field ([(''id'', JStr i), (''component'', JStr c), (''props'', JObj ps)] @ [(''children'', v)]) ''children'' = Some v" for v
      by (simp add: field_def)
    have IH: "\<And>x. x \<in> set cs \<Longrightarrow> uiNodeSchema (node_json x) = (if shape_ok x then Some x else None)"
      using UINode.IH Some by simp
    have th: "those (map uiNodeSchema (map node_json cs)) = (if list_all shape_ok cs then Some cs else None)"
    proof (cases "list_all shape_ok cs")
      case True
      then have "\<And>x. x \<in> set cs \<Longrightarrow> (uiNodeSchema \<circ> node_json) x = Some (id x)"
        using IH by (simp add: list_all_iff)
      then have "those (map (uiNodeSchema \<circ> node_json) cs) = Some (map id cs)"
        by (rule those_map_Some)
      with True show ?thesis by simp
    next
      case False
      then obtain x where "x \<in> set cs" "\<not> shape_ok x" by (auto simp: list_all_iff)
      then have "(uiNodeSchema \<circ> node_json) x = None" using IH by simp
      with \<open>x \<in> set cs\<close> have "those (map (uiNodeSchema \<circ> node_json) cs) = None"
        by (rule those_map_None)
      with False show ?thesis by simp
    qed
    show ?thesis using Some f1 f2 f3 f4 th by simp
  qed
qed

lemma validateNodeSchema_empty:
  "(validateNodeSchema n path = []) = semantic_ok n"
  "(validateChildren cs path idx = []) = list_all semantic_ok cs"
proof (induction n path and cs path idx rule: validateNodeSchema_validateChildren.induct)
  case (1 i c ps ch path)
  then show ?case by (cases ch) (auto split: option.splits)
next
  case (2 path idx)
  then show ?case by simp
next
  case (3 child rest path idx)
  then show ?case by simp
qed

lemma validateRoots_empty: "(validateRoots ns idx = []) = list_all semantic_ok ns"
  by (induction ns idx rule: validateRoots.induct) (simp_all add: validateNodeSchema_empty)

lemma those_nodes:
  "those (map (uiNodeSchema \<circ> node_json) ns) = (if list_all shape_ok ns then Some ns else None)"
proof (cases "list_all shape_ok ns")
  case True
  then have "\<And>x. x \<in> set ns \<Longrightarrow> (uiNodeSchema \<circ> node_json) x = Some (id x)"
    by (simp add: list_all_iff uiNodeSchema_node_json)
  then have "those (map (uiNodeSchema \<circ> node_json) ns) = Some (map id ns)"
    by (rule those_map_Some)
  with True show ?thesis by simp
next
  case False
  then obtain x where x: "x \<in> set ns" "\<not> shape_ok x" by (auto simp: list_all_iff)
  then have "(uiNodeSchema \<circ> node_json) x = None" by (simp add: uiNodeSchema_node_json)
  with x(1) have "those (map (uiNodeSchema \<circ> node_json) ns) = None"
    by (rule those_map_None)
  with False show ?thesis by simp
qed

lemma uiPlanSchema_plan_json:
  "uiPlanSchema (plan_json p) =
     (if mode p \<in> set [''stack'', ''grid'', ''split''] \<and> root p \<noteq> [] \<and> list_all shape_ok (root p)
      then Some p else None)"
  unfolding uiPlanSchema_def plan_json_def
  by (cases "modificationInstructions p") (simp_all add: field_def those_nodes del: set_simps)

lemma validatePlan_plan_json:
  "validatePlan (plan_json p) = Inr p' \<longleftrightarrow> plan_ok p \<and> p' = p"
  by (auto simp: validatePlan_def uiPlanSchema_plan_json validateRoots_empty plan_ok_def node_ok_def
        list_all_iff Let_def split: if_splits simp del: set_simps)

lemma validators:
  "componentPropsValidators ''Button'' = Some buttonPropsSchema"
  "componentPropsValidators ''Card'' = Some cardPropsSchema"
  "componentPropsValidators ''Input'' = Some inputPropsSchema"
  "componentPropsValidators ''Table'' = Some tablePropsSchema"
  "componentPropsValidators ''Modal'' = Some modalPropsSchema"
  "componentPropsValidators ''Sidebar'' = Some sidebarPropsSchema"
  "componentPropsValidators ''Navbar'' = Some navbarPropsSchema"
  "componentPropsValidators ''Chart'' = Some chartPropsSchema"
  by (simp_all add: componentPropsValidators_def)

lemma node_id_nonempty: "toLowerCase tag @ ''-'' @ decimal c \<noteq> []"
  by simp

lemma z_string_array_strings: "z_string_array (Some (strings_json xs))"
  by (simp add: z_string_array_def strings_json_def z_string_def list_all_iff)

lemma ok_navbar:
  "t \<noteq> [] \<Longrightarrow> node_ok (node c ''Navbar'' [(''title'', JStr t), (''links'', strings_json xs)] None)"
  by (simp add: node_ok_def node_def validators ALLOWED_COMPONENTS_def childCapableComponents_def
        navbarPropsSchema_def strict_def field_def z_string_min1_def z_string_array_strings)

lemma ok_sidebar:
  "t \<noteq> [] \<Longrightarrow> node_ok (node c ''Sidebar'' [(''title'', JStr t), (''items'', strings_json xs)] None)"
  by (simp add: node_ok_def node_def validators ALLOWED_COMPONENTS_def childCapableComponents_def
        sidebarPropsSchema_def strict_def field_def z_string_min1_def z_string_array_strings)

lemma ok_card:
  "t \<noteq> [] \<Longrightarrow> (case ch of None \<Rightarrow> True | Some cs \<Rightarrow> list_all node_ok cs) \<Longrightarrow>
   node_ok (node c ''Card'' [(''title'', JStr t)] ch)"
  by (cases ch)
     (simp_all add: node_ok_def node_def validators ALLOWED_COMPONENTS_def childCapableComponents_def
        cardPropsSchema_def strict_def field_def z_string_min1_def list_all_iff)

lemma ok_modal:
  "t \<noteq> [] \<Longrightarrow> list_all node_ok cs \<Longrightarrow>
   node_ok (node c ''Modal'' [(''title'', JStr t), (''open'', JBool b)] (Some cs))"
  by (simp add: node_ok_def node_def validators ALLOWED_COMPONENTS_def childCapableComponents_def
        modalPropsSchema_def strict_def field_def z_string_min1_def z_boolean_def list_all_iff)

lemma ok_input:
  "l \<noteq> [] \<Longrightarrow>
   node_ok (node c ''Input'' [(''label'', JStr l), (''placeholder'', JStr p)] None)"
  by (simp add: node_ok_def node_def validators ALLOWED_COMPONENTS_def childCapableComponents_def
        inputPropsSchema_def strict_def field_def z_string_min1_def z_string_optional_def)

lemma ok_button:
  "l \<noteq> [] \<Longrightarrow> v = ''primary'' \<or> v = ''secondary'' \<Longrightarrow>
   node_ok (node c ''Button'' [(''label'', JStr l), (''variant'', JStr v)] None)"
  by (auto simp: node_ok_def node_def validators ALLOWED_COMPONENTS_def childCapableComponents_def
        buttonPropsSchema_def strict_def field_def z_string_min1_def)

lemma ok_table:
  "node_ok (node c ''Table'' [(''columns'', strings_json cols), (''rows'', rows_json rows)] None)"
  by (simp add: node_ok_def node_def validators ALLOWED_COMPONENTS_def childCapableComponents_def
        tablePropsSchema_def strict_def field_def z_string_array_strings rows_json_def list_all_iff)

lemma ok_chart:
  "t \<noteq> [] \<Longrightarrow>
   node_ok (node c ''Chart'' [(''title'', JStr t), (''data'', chart_json d)] None)"
  by (auto simp: node_ok_def node_def validators ALLOWED_COMPONENTS_def childCapableComponents_def
        chartPropsSchema_def chartPointSchema_def strict_def field_def z_string_min1_def
        z_string_def z_number_def chart_json_def list_all_iff)

lemma pickByHash_in: "items \<noteq> [] \<Longrightarrow> pickByHash items h k \<in> set items"
  by (simp add: pickByHash_def)

lemma actionPrimary_nonempty:
  "pickByHash [''Apply'', ''Create'', ''Save'', ''Search'', ''Launch''] h k \<noteq> []"
  using pickByHash_in [of "[''Apply'', ''Create'', ''Save'', ''Search'', ''Launch'']" h k] by auto

lemma actionSecondary_nonempty:
  "pickByHash [''Reset'', ''Clear'', ''Cancel'', ''Back'', ''Filter''] h k \<noteq> []"
  using pickByHash_in [of "[''Reset'', ''Clear'', ''Cancel'', ''Back'', ''Filter'']" h k] by auto

lemma push_navbar_ok:
  "list_all node_ok (fst st) \<Longrightarrow> list_all node_ok (fst (push_navbar text topic hash requested st))"
  by (cases st) (simp add: push_navbar_def ok_navbar)

lemma push_sidebar_ok:
  "list_all node_ok (fst st) \<Longrightarrow> list_all node_ok (fst (push_sidebar text topic hash requested st))"
  by (cases st) (simp add: push_sidebar_def ok_sidebar)

lemma push_card_ok:
  "list_all node_ok (fst st) \<Longrightarrow>
   list_all node_ok (fst (push_card text topic hash phrases requested st))"
  by (cases st; cases phrases)
     (simp_all add: push_card_def Let_def ok_card ok_input ok_button actionPrimary_nonempty
        actionSecondary_nonempty)

lemma push_table_ok:
  "list_all node_ok (fst st) \<Longrightarrow>
   list_all node_ok (fst (push_table text topic hash phrases requested st))"
  by (cases st) (simp add: push_table_def Let_def ok_card ok_table)

lemma push_chart_ok:
  "list_all node_ok (fst st) \<Longrightarrow> list_all node_ok (fst (push_chart topic hash requested st))"
  by (cases st) (simp add: push_chart_def ok_chart)

lemma push_modal_ok:
  "list_all node_ok (fst st) \<Longrightarrow> list_all node_ok (fst (push_modal text topic requested st))"
  by (cases st) (simp add: push_modal_def ok_modal ok_input ok_button)

lemma push_fallback_ok:
  "list_all node_ok (fst st) \<Longrightarrow> list_all node_ok (fst (push_fallback topic st))"
  by (cases st) (simp add: push_fallback_def ok_card ok_button)

lemma push_fallback_nonempty: "fst (push_fallback topic st) \<noteq> []"
  by (cases st) (simp add: push_fallback_def)

lemma inferMode_enum: "inferMode intent \<in> set [''stack'', ''grid'', ''split'']"
  by (simp add: inferMode_def)

lemma buildIntentAwarePlan_ok: "plan_ok (buildIntentAwarePlan intent)"
  unfolding plan_ok_def buildIntentAwarePlan_def Let_def
  by (simp add: inferMode_enum push_fallback_nonempty push_fallback_ok push_modal_ok push_chart_ok
        push_table_ok push_card_ok push_sidebar_ok push_navbar_ok del: set_simps)

section \<open>Properties of the generator\<close>

lemma runGenerator_invalid_iff:
  "(\<exists>e. runGenerator p = Inl (InvalidPlan e)) \<longleftrightarrow> \<not> plan_ok p"
proof (cases "validatePlan (plan_json p)")
  case (Inl e)
  then have "\<not> plan_ok p" using validatePlan_plan_json [of p p] by auto
  with Inl show ?thesis by (simp add: runGenerator_def)
next
  case (Inr q)
  then have "plan_ok p" using validatePlan_plan_json [of p q] by simp
  with Inr show ?thesis
    by (auto simp: runGenerator_def Let_def split: option.splits)
qed

text \<open>
  Claim C10. For every intent, the plan of the deterministic full synthesis passes
  \<open>validatePlan\<close>, which returns it unchanged: its root is not empty, every node of it
  has props that its component's strict schema accepts and has children only under
  \<open>Card\<close> and \<open>Modal\<close> (\<open>semantic_ok\<close>), and the validation at the start of
  \<open>runGenerator\<close> never rejects it.
\<close>

theorem deterministic_plan_passes_validatePlan:
  "validatePlan (plan_json (buildIntentAwarePlan intent)) = Inr (buildIntentAwarePlan intent)
   \<and> root (buildIntentAwarePlan intent) \<noteq> []
   \<and> list_all semantic_ok (root (buildIntentAwarePlan intent))
   \<and> (\<forall>e. runGenerator (buildIntentAwarePlan intent) \<noteq> Inl (InvalidPlan e))"
proof -
  have ok: "plan_ok (buildIntentAwarePlan intent)" by (rule buildIntentAwarePlan_ok)
  then have "validatePlan (plan_json (buildIntentAwarePlan intent)) = Inr (buildIntentAwarePlan intent)"
    using validatePlan_plan_json by blast
  moreover have "root (buildIntentAwarePlan intent) \<noteq> []"
    using ok by (simp add: plan_ok_def del: set_simps)
  moreover have "list_all semantic_ok (root (buildIntentAwarePlan intent))"
    using ok by (simp add: plan_ok_def node_ok_def list_all_iff del: set_simps)
  moreover have "\<forall>e. runGenerator (buildIntentAwarePlan intent) \<noteq> Inl (InvalidPlan e)"
    using ok runGenerator_invalid_iff [of "buildIntentAwarePlan intent"] by blast
  ultimately show ?thesis by blast
qed

theorem deterministic_plan_passes_validatePlan_witness:
  "validatePlan (plan_json (buildIntentAwarePlan ''login form''))
     = Inr (buildIntentAwarePlan ''login form'')
   \<and> root (buildIntentAwarePlan ''login form'') \<noteq> []"
  using deterministic_plan_passes_validatePlan [of "''login form''"] by simp

lemma set_uniq_from: "set (uniq_from seen xs) = set xs - set seen"
  by (induction xs arbitrary: seen) auto

lemma set_uniq: "set (uniq xs) = set xs"
  by (simp add: uniq_def set_uniq_from)

lemma collectComponents_allowed:
  "shape_ok n \<Longrightarrow> set (collectComponents n) \<subseteq> set ALLOWED_COMPONENTS"
  "list_all shape_ok ns \<Longrightarrow> set (collectComponentsAll ns) \<subseteq> set ALLOWED_COMPONENTS"
proof (induction n and ns rule: collectComponents_collectComponentsAll.induct)
  case (1 i c ps ch)
  then show ?case by (cases ch) auto
next
  case 2
  then show ?case by simp
next
  case (3 child rest)
  then show ?case by simp
qed

lemma unauthorized_empty:
  assumes "plan_ok p"
  shows "filter (\<lambda>c. c \<notin> set ALLOWED_COMPONENTS) (uniq (collectComponentsAll (root p))) = []"
proof -
  have "list_all shape_ok (root p)"
    using assms by (simp add: plan_ok_def node_ok_def list_all_iff del: set_simps)
  then have "set (collectComponentsAll (root p)) \<subseteq> set ALLOWED_COMPONENTS"
    by (rule collectComponents_allowed)
  then show ?thesis by (auto simp: filter_empty_conv set_uniq)
qed

text \<open>
  Claim C2. When \<open>validatePlan\<close> accepts a plan, the list \<open>unauthorized\<close> that
  \<open>runGenerator\<close> computes from it is empty, and \<open>runGenerator\<close> does not raise a
  whitelist violation on it.
\<close>

theorem validated_plan_never_violates_whitelist:
  assumes "validatePlan (plan_json p) = Inr accepted"
  shows "filter (\<lambda>c. c \<notin> set ALLOWED_COMPONENTS) (uniq (collectComponentsAll (root p))) = []
         \<and> (\<forall>msg. runGenerator p \<noteq> Inl (WhitelistViolation msg))"
proof -
  have ok: "plan_ok p" using assms validatePlan_plan_json [of p accepted] by simp
  have u: "filter (\<lambda>c. c \<notin> set ALLOWED_COMPONENTS) (uniq (collectComponentsAll (root p))) = []"
    using ok by (rule unauthorized_empty)
  have "\<forall>msg. runGenerator p \<noteq> Inl (WhitelistViolation msg)"
    using assms u by (auto simp: runGenerator_def Let_def split: option.splits)
  with u show ?thesis by simp
qed

theorem validated_plan_never_violates_whitelist_witness:
  "validatePlan (plan_json button_plan) = Inr button_plan
   \<and> (\<forall>msg. runGenerator button_plan \<noteq> Inl (WhitelistViolation msg))"
proof -
  have h: "validatePlan (plan_json button_plan) = Inr button_plan" by code_simp
  from validated_plan_never_violates_whitelist [OF h] h show ?thesis by simp
qed

section \<open>Properties of the planner\<close>

lemma runPlanner_deterministic_path:
  assumes "callLLM w 0 = Inr None" and "priorPlan input = None"
  shows "runPlanner w input =
           Inr \<lparr>result_plan = buildIntentAwarePlan (clean (filterPromptInjection (input_intent input))),
                warnings = (if flagged (filterPromptInjection (input_intent input))
                            then [''Prompt injection patterns were sanitized''] else [])\<rparr>"
  using assms by (simp add: runPlanner_def Let_def oracle_plan_def)

text \<open>
  Claim C1. The deterministic full synthesis is a function of the intent alone: it reads
  no clock and no random source, and its node factory starts afresh in every call. So two
  runs of the planner on the same input with no prior plan, in any two worlds where the
  oracle is unavailable, return equal results, whose plan is \<open>buildIntentAwarePlan\<close> of
  the cleaned intent.
\<close>

theorem full_synthesis_is_deterministic:
  assumes "callLLM w1 0 = Inr None" and "callLLM w2 0 = Inr None" and "priorPlan input = None"
  shows "runPlanner w1 input = runPlanner w2 input
         \<and> map_sum id result_plan (runPlanner w1 input)
             = Inr (buildIntentAwarePlan (clean (filterPromptInjection (input_intent input))))"
  using assms by (simp add: runPlanner_deterministic_path)

theorem full_synthesis_is_deterministic_witness:
  "callLLM \<lparr>apiKey = None, fetch = (\<lambda>k. Rejected), clock = (\<lambda>k. 0), random_suffix = ''abc'', iso_time = ''t0''\<rparr> 0 = Inr None
   \<and> callLLM \<lparr>apiKey = Some ''key'', fetch = (\<lambda>k. Responded False Unreadable), clock = (\<lambda>k. 7), random_suffix = ''xyz'', iso_time = ''t1''\<rparr> 0 = Inr None
   \<and> runPlanner \<lparr>apiKey = None, fetch = (\<lambda>k. Rejected), clock = (\<lambda>k. 0), random_suffix = ''abc'', iso_time = ''t0''\<rparr>
         \<lparr>input_intent = ''login form'', priorPlan = None, regenerateFromScratch = False\<rparr>
       = runPlanner \<lparr>apiKey = Some ''key'', fetch = (\<lambda>k. Responded False Unreadable), clock = (\<lambda>k. 7), random_suffix = ''xyz'', iso_time = ''t1''\<rparr>
         \<lparr>input_intent = ''login form'', priorPlan = None, regenerateFromScratch = False\<rparr>"
proof -
  let ?w1 = "\<lparr>apiKey = None, fetch = (\<lambda>k. Rejected), clock = (\<lambda>k. 0), random_suffix = ''abc'', iso_time = ''t0''\<rparr>"
  let ?w2 = "\<lparr>apiKey = Some ''key'', fetch = (\<lambda>k. Responded False Unreadable), clock = (\<lambda>k. 7), random_suffix = ''xyz'', iso_time = ''t1''\<rparr>"
  let ?i = "\<lparr>input_intent = ''login form'', priorPlan = None, regenerateFromScratch = False\<rparr>"
  have 1: "callLLM ?w1 0 = Inr None" by (simp add: callLLM_def)
  have 2: "callLLM ?w2 0 = Inr None" by (simp add: callLLM_def)
  have 3: "priorPlan ?i = None" by simp
  from full_synthesis_is_deterministic [OF 1 2 3] 1 2 show ?thesis by blast
qed

section \<open>Properties of the pipeline\<close>

lemma pipeline_error_keeps_store:
  "fst (executePipeline w versions body) = Inl e \<Longrightarrow> snd (executePipeline w versions body) = versions"
  by (auto simp: executePipeline_def store_add_def Let_def split: if_splits sum.splits prod.splits)

text \<open>
  Claim C4. When the generator raises on the plan of a request (an invalid plan, a
  whitelist violation or unsafe generated code: the three validation errors, and the only
  errors it raises), \<open>executePipeline\<close> ends with that error and the version store is the
  one the request started with: no snapshot is appended.
\<close>

theorem validation_error_stores_no_snapshot:
  assumes "request_text body \<noteq> []"
    and "runPlanner w (planner_input versions body) = Inr planner"
    and "runGenerator (result_plan planner) = Inl e"
  shows "executePipeline w versions body = (Inl e, versions)
         \<and> ((\<exists>pe. e = InvalidPlan pe) \<or> (\<exists>msg. e = WhitelistViolation msg)
              \<or> (\<exists>msg. e = UnsafeCode msg))"
proof -
  have "executePipeline w versions body = (Inl e, versions)"
    using assms by (simp add: executePipeline_def)
  moreover have "(\<exists>pe. e = InvalidPlan pe) \<or> (\<exists>msg. e = WhitelistViolation msg)
              \<or> (\<exists>msg. e = UnsafeCode msg)"
    using assms(3)
    by (auto simp: runGenerator_def Let_def split: sum.splits if_splits option.splits)
  ultimately show ?thesis by simp
qed


end
